theory Spec2Isabelle
  imports Main "HOL-Library.Multiset"
begin

section \<open>QuizTime backend: question delivery, statistics and leaderboard\<close>

text \<open>
  A shallow embedding of the request handlers of the QuizTime backend:
  \<^verbatim>\<open>src/index.js\<close> holds two revisions of the server (lines 1-264 the file-based
  one, lines 265-1051 the current one), \<^verbatim>\<open>src/unnamed/part_005\<close> a third one
  between them; the schemas of the current revision are those of
  \<^verbatim>\<open>src/unnamed/part_002\<close>, the schemas of the one before those of
  \<^verbatim>\<open>src/db/models.js\<close>. JavaScript numbers that count things are modelled as
  \<^typ>\<open>int\<close> (exact below \<open>2^53\<close>), request fields that may be missing as
  \<^typ>\<open>'a option\<close> (\<open>None\<close> is \<^verbatim>\<open>undefined\<close>), collections of the document store
  and JSON files as lists in storage order, and every handler as a function from the
  stored state and the request to the new state and the response. A \<^verbatim>\<open>save()\<close>
  that the schema rejects is an error of the handler and stores nothing.
\<close>

subsection \<open>JavaScript helpers\<close>

text \<open>\<^verbatim>\<open>v || d\<close> on a number: \<^verbatim>\<open>undefined\<close> and \<^verbatim>\<open>0\<close> are falsy.\<close>

definition js_or :: "int option \<Rightarrow> int \<Rightarrow> int" where
  "js_or v d = (case v of None \<Rightarrow> d | Some n \<Rightarrow> if n = 0 then d else n)"

text \<open>
  A value of a request body where its JavaScript type matters: \<^verbatim>\<open>null\<close>, a
  boolean, a number or a string. Numbers are integers; fractions, arrays and objects
  are left out.
\<close>

datatype js_value = JNull | JBool bool | JNum int | JStr string

definition js_truthy :: "js_value \<Rightarrow> bool" where
  "js_truthy v =
     (case v of JNull \<Rightarrow> False | JBool b \<Rightarrow> b | JNum n \<Rightarrow> n \<noteq> 0 | JStr s \<Rightarrow> s \<noteq> [])"


text \<open>\<^verbatim>\<open>String(n)\<close> of an integer: its decimal digits.\<close>

definition digit_char :: "nat \<Rightarrow> char" where
  "digit_char d = char_of (48 + d)"

function digits_of :: "nat \<Rightarrow> string" where
  "digits_of n = (if n < 10 then [digit_char n] else digits_of (n div 10) @ [digit_char (n mod 10)])"
  by pat_completeness auto
termination
  by (relation "measure id") auto

declare digits_of.simps [simp del]

definition js_String :: "int \<Rightarrow> string" where
  "js_String n = (if n < 0 then CHR ''-'' # digits_of (nat (- n)) else digits_of (nat n))"

text \<open>
  The casts of the store's schema types. \<open>toNumber\<close> is \<^verbatim>\<open>Number(s)\<close> on a
  non-empty string, \<open>None\<close> where that is \<^verbatim>\<open>NaN\<close>; it is a parameter of every
  handler that stores a number. A Number field takes \<^verbatim>\<open>null\<close> and the empty string
  as \<^verbatim>\<open>null\<close>, a boolean as 0 or 1, and rejects a string that is no number.
\<close>

datatype num_cast = NumError | NumNull | Num int

definition castNumber :: "(string \<Rightarrow> int option) \<Rightarrow> js_value \<Rightarrow> num_cast" where
  "castNumber toNumber v =
     (case v of
        JNull \<Rightarrow> NumNull
      | JBool b \<Rightarrow> Num (if b then 1 else 0)
      | JNum n \<Rightarrow> Num n
      | JStr s \<Rightarrow>
          if s = [] then NumNull
          else (case toNumber s of None \<Rightarrow> NumError | Some n \<Rightarrow> Num n))"


text \<open>\<^verbatim>\<open>field = supplied || stored\<close> on a String field: every truthy value of
  these types has a string cast.\<close>

definition or_string :: "js_value option \<Rightarrow> string \<Rightarrow> string" where
  "or_string supplied stored =
     (case supplied of
        None \<Rightarrow> stored
      | Some JNull \<Rightarrow> stored
      | Some (JBool b) \<Rightarrow> if b then ''true'' else stored
      | Some (JNum n) \<Rightarrow> if n = 0 then stored else js_String n
      | Some (JStr s) \<Rightarrow> if s = [] then stored else s)"

text \<open>
  \<^verbatim>\<open>Math.round((c / q) * 100)\<close> for \<open>q > 0\<close>, in double precision. A double is
  written \<open>(m, e)\<close> for \<open>m * 2^e\<close>. The quotient is rounded to 53 bits (ties to even),
  so is the product with 100, and \<^verbatim>\<open>Math.round\<close> is \<open>\<lfloor>x + 1/2\<rfloor>\<close>. Exponents are
  not bounded: the operands are integers below \<open>2^53\<close>.
\<close>

function bitlen :: "int \<Rightarrow> nat" where
  "bitlen n = (if n \<le> 0 then 0 else Suc (bitlen (n div 2)))"
  by pat_completeness auto
termination
  by (relation "measure nat") auto

declare bitlen.simps [simp del]

definition rne_div :: "int \<Rightarrow> int \<Rightarrow> int" where
  "rne_div a b =
     (let q = a div b; r = a mod b
      in if 2 * r < b then q else if 2 * r > b then q + 1 else if even q then q else q + 1)"

definition double_div :: "int \<Rightarrow> int \<Rightarrow> int \<times> int" where
  "double_div c q =
     (let k = int (bitlen c) - int (bitlen q);
          lg = (if k \<ge> 0 then (if c \<ge> q * 2 ^ nat k then k else k - 1)
                else (if c * 2 ^ nat (- k) \<ge> q then k else k - 1));
          e = lg - 52
      in (if e \<ge> 0 then rne_div c (q * 2 ^ nat e) else rne_div (c * 2 ^ nat (- e)) q, e))"

definition double_round53 :: "int \<times> int \<Rightarrow> int \<times> int" where
  "double_round53 x =
     (let b = bitlen (fst x)
      in if b \<le> 53 then x else (rne_div (fst x) (2 ^ (b - 53)), snd x + int (b - 53)))"

definition Math_round :: "int \<times> int \<Rightarrow> int" where
  "Math_round x =
     (if snd x \<ge> 0 then fst x * 2 ^ nat (snd x)
      else (fst x + 2 ^ (nat (- snd x) - 1)) div 2 ^ nat (- snd x))"

definition js_round_percent :: "int \<Rightarrow> int \<Rightarrow> int" where
  "js_round_percent c q =
     (if c = 0 then 0
      else
        (let quotient = double_div \<bar>c\<bar> q;
             product = double_round53 (100 * fst quotient, snd quotient)
         in Math_round (sgn c * fst product, snd product)))"

text \<open>\<^verbatim>\<open>Array.prototype.findIndex\<close>: the first index whose element satisfies
  the predicate, \<open>-1\<close> when there is none.\<close>

fun findIndex :: "('a \<Rightarrow> bool) \<Rightarrow> 'a list \<Rightarrow> int" where
  "findIndex P [] = - 1"
| "findIndex P (x # xs) =
     (if P x then 0 else (let r = findIndex P xs in if r < 0 then - 1 else r + 1))"

text \<open>\<^verbatim>\<open>Array.prototype.indexOf\<close> on a list of strings.\<close>

definition indexOf :: "string list \<Rightarrow> string \<Rightarrow> int" where
  "indexOf xs v = findIndex (\<lambda>x. x = v) xs"

subsection \<open>The question catalog and \<^verbatim>\<open>check-answer\<close>\<close>

record question =
  q_id :: string
  q_question :: string
  q_options :: "string list"
  q_answer :: string

definition LEVELS :: "string list" where
  "LEVELS = [''easy'', ''medium'', ''hard'']"

text \<open>The data directory: the questions of \<^verbatim>\<open>`${level}.json`\<close>, \<open>None\<close> when the
  file does not exist.\<close>

type_synonym data_dir = "string \<Rightarrow> question list option"

definition getQuestions :: "data_dir \<Rightarrow> string \<Rightarrow> question list" where
  "getQuestions files level = (case files level of None \<Rightarrow> [] | Some qs \<Rightarrow> qs)"

text \<open>
  The handler \<^verbatim>\<open>POST /api/check-answer\<close> has the same text in all three revisions
  and refers to the module's \<^verbatim>\<open>LEVELS\<close> and \<^verbatim>\<open>getQuestions\<close>. A revision is
  described by what its module binds under these two names (\<open>None\<close>: the name is not
  declared). The file-based revision (\<^verbatim>\<open>src/index.js\<close> 22-28) and the one of
  \<^verbatim>\<open>part_005\<close> (579-585) declare both; the current revision
  (\<^verbatim>\<open>src/index.js\<close> 265-1051) declares neither.
\<close>

record module_scope =
  ms_LEVELS :: "string list option"
  ms_getQuestions :: "(data_dir \<Rightarrow> string \<Rightarrow> question list) option"

definition earlier_revision :: module_scope where
  "earlier_revision = \<lparr> ms_LEVELS = Some LEVELS, ms_getQuestions = Some getQuestions \<rparr>"

definition current_revision :: module_scope where
  "current_revision = \<lparr> ms_LEVELS = None, ms_getQuestions = None \<rparr>"

text \<open>
  The responses: status 400, status 404, \<^verbatim>\<open>{correct, correctAnswer}\<close>, or the
  \<^verbatim>\<open>ReferenceError\<close> thrown when an undeclared name is evaluated, which the
  framework answers with status 500.
\<close>

datatype check_result =
    InvalidLevel
  | QuestionNotFound
  | Checked bool "string option"
  | ReferenceError

definition check_answer ::
    "module_scope \<Rightarrow> data_dir \<Rightarrow> string \<Rightarrow> string \<Rightarrow> string \<Rightarrow> check_result" where
  "check_answer scope files level questionId answer =
     (case ms_LEVELS scope of
        None \<Rightarrow> ReferenceError
      | Some levels \<Rightarrow>
          if level \<notin> set levels then InvalidLevel
          else
            (case ms_getQuestions scope of
               None \<Rightarrow> ReferenceError
             | Some getQuestions' \<Rightarrow>
                 (case find (\<lambda>q. q_id q = questionId) (getQuestions' files level) of
                    None \<Rightarrow> QuestionNotFound
                  | Some question \<Rightarrow>
                      (let isCorrect = (q_answer question = answer)
                       in Checked isCorrect
                            (if isCorrect then None else Some (q_answer question))))))"

subsection \<open>Per-user statistics\<close>

datatype handler_error = BadRequest | ServerError

record stats =
  st_id :: int
  st_userId :: string
  st_username :: string
  st_gamesPlayed :: int
  st_gamesCompleted :: int
  st_totalPrizeMoney :: int
  st_questionsAnswered :: int
  st_accuracy :: int
  st_averageCompletionTime :: string

text \<open>\<^verbatim>\<open>Stats.findOne({ username })\<close>.\<close>

definition findStats :: "stats list \<Rightarrow> string \<Rightarrow> stats option" where
  "findStats coll username = find (\<lambda>s. st_username s = username) coll"

text \<open>\<^verbatim>\<open>stats.save()\<close> of a document that was found: the first document of that
  user is replaced.\<close>

fun saveStats :: "stats list \<Rightarrow> stats \<Rightarrow> stats list" where
  "saveStats [] s = []"
| "saveStats (x # xs) s =
     (if st_username x = st_username s then s # xs else x # saveStats xs s)"

text \<open>\<^verbatim>\<open>Stats.findOne().sort({ id: -1 })\<close> and the id of a new document:
  \<^verbatim>\<open>lastStat ? lastStat.id + 1 : 1\<close>.\<close>

definition newStatsId :: "stats list \<Rightarrow> int" where
  "newStatsId coll =
     (case coll of [] \<Rightarrow> 1 | s # ss \<Rightarrow> fold max (map st_id ss) (st_id s) + 1)"





subsection \<open>Game completion: \<^verbatim>\<open>POST /api/game/complete\<close>\<close>

text \<open>The request body; \<open>correctAnswers\<close> is taken to be a number, as the division
  in the accuracy needs, and \<open>completionTime\<close> is whatever the client sent.\<close>

record complete_req =
  cr_questionsAnswered :: "int option"
  cr_correctAnswers :: int
  cr_totalQuestions :: "int option"
  cr_finalPrize :: "int option"
  cr_completionTime :: "js_value option"
  cr_gameCompleted :: bool

text \<open>The caller's identity, \<^verbatim>\<open>req.user\<close>: the id and the username of the token,
  both non-empty for a registered user.\<close>

record auth_user =
  au_username :: string
  au_id :: string

definition complete_stats_update :: "stats \<Rightarrow> complete_req \<Rightarrow> stats" where
  "complete_stats_update s r =
     (let gamesPlayed = st_gamesPlayed s + 1;
          gamesCompleted =
            (if cr_gameCompleted r then st_gamesCompleted s + 1 else st_gamesCompleted s);
          totalPrizeMoney = st_totalPrizeMoney s + js_or (cr_finalPrize r) 0;
          questionsAnswered = st_questionsAnswered s + js_or (cr_questionsAnswered r) 0;
          accuracy =
            (if questionsAnswered > 0
             then js_round_percent (cr_correctAnswers r) questionsAnswered else 0)
      in s\<lparr> st_gamesPlayed := gamesPlayed,
             st_gamesCompleted := gamesCompleted,
             st_totalPrizeMoney := totalPrizeMoney,
             st_questionsAnswered := questionsAnswered,
             st_accuracy := accuracy \<rparr>)"

definition complete_stats_create :: "int \<Rightarrow> auth_user \<Rightarrow> complete_req \<Rightarrow> stats" where
  "complete_stats_create newId u r =
     \<lparr> st_id = newId,
       st_userId = au_id u,
       st_username = au_username u,
       st_gamesPlayed = 1,
       st_gamesCompleted = (if cr_gameCompleted r then 1 else 0),
       st_totalPrizeMoney = js_or (cr_finalPrize r) 0,
       st_questionsAnswered = js_or (cr_questionsAnswered r) 0,
       st_accuracy =
         (case cr_questionsAnswered r of
            None \<Rightarrow> 0
          | Some q \<Rightarrow> if q > 0 then js_round_percent (cr_correctAnswers r) q else 0),
       st_averageCompletionTime = or_string (cr_completionTime r) ''0:00'' \<rparr>"

text \<open>
  A stored entry of the leaderboard document (schema of \<^verbatim>\<open>part_002\<close> 119-153):
  \<open>completionDate\<close> is a clock reading, \<open>completionTime\<close> a Number, \<open>None\<close> when it
  is \<^verbatim>\<open>null\<close>. Stored entries are taken to be valid documents.
\<close>

record lb_entry =
  le_id :: int
  le_userId :: string
  le_playerName :: string
  le_prizeWon :: int
  le_questionsAnswered :: int
  le_totalQuestions :: int
  le_completionDate :: nat
  le_completionTime :: "int option"

text \<open>The object a handler pushes, before the schema has cast it; an absent
  \<open>completionTime\<close> takes the schema's default 0.\<close>

record new_entry =
  ne_userId :: string
  ne_playerName :: string
  ne_prizeWon :: int
  ne_questionsAnswered :: int
  ne_totalQuestions :: int
  ne_completionDate :: nat
  ne_completionTime :: "js_value option"

text \<open>
  What \<^verbatim>\<open>save()\<close> asks of the pushed entry: the required strings are not empty
  and \<open>completionTime\<close> has a cast to Number.
\<close>

definition entry_valid :: "(string \<Rightarrow> int option) \<Rightarrow> new_entry \<Rightarrow> bool" where
  "entry_valid toNumber e =
     (ne_userId e \<noteq> [] \<and> ne_playerName e \<noteq> [] \<and>
      (case ne_completionTime e of
         None \<Rightarrow> True
       | Some v \<Rightarrow> castNumber toNumber v \<noteq> NumError))"

text \<open>The pushed entry as a subdocument with the given id; a \<open>completionTime\<close>
  without a cast is left unset.\<close>

definition entry_document :: "(string \<Rightarrow> int option) \<Rightarrow> int \<Rightarrow> new_entry \<Rightarrow> lb_entry" where
  "entry_document toNumber newId e =
     \<lparr> le_id = newId,
       le_userId = ne_userId e,
       le_playerName = ne_playerName e,
       le_prizeWon = ne_prizeWon e,
       le_questionsAnswered = ne_questionsAnswered e,
       le_totalQuestions = ne_totalQuestions e,
       le_completionDate = ne_completionDate e,
       le_completionTime =
         (case ne_completionTime e of
            None \<Rightarrow> Some 0
          | Some v \<Rightarrow>
              (case castNumber toNumber v of
                 Num n \<Rightarrow> Some n | NumNull \<Rightarrow> None | NumError \<Rightarrow> None)) \<rparr>"

text \<open>\<^verbatim>\<open>length > 0 ? Math.max(...leaderboard.map(entry => entry.id)) : 0\<close>.\<close>

definition lastEntryId :: "lb_entry list \<Rightarrow> int" where
  "lastEntryId lb = (case lb of [] \<Rightarrow> 0 | e # es \<Rightarrow> fold max (map le_id es) (le_id e))"

text \<open>\<^verbatim>\<open>sort((a, b) => b.prizeWon - a.prizeWon)\<close>: a stable sort, descending
  by prize.\<close>

definition sortByPrize :: "lb_entry list \<Rightarrow> lb_entry list" where
  "sortByPrize lb = sort_key (\<lambda>e. - le_prizeWon e) lb"

text \<open>\<^verbatim>\<open>if (length > 100) list = list.slice(0, 100)\<close>.\<close>

definition keepTop100 :: "'a list \<Rightarrow> 'a list" where
  "keepTop100 xs = (if length xs > 100 then take 100 xs else xs)"

text \<open>
  The leaderboard step that \<^verbatim>\<open>/api/game/complete\<close> and
  \<^verbatim>\<open>/api/complete-game\<close> share: find or create the document, give the entry the
  next id, push, sort, truncate, save, and look the entry up again. The save validates
  the document as it is then, so it is rejected when the pushed entry is not valid and
  is still in the list. The result is \<open>None\<close> when the save is rejected (the handler
  answers 500 and the stored document stays as it was), otherwise the stored list and
  \<^verbatim>\<open>findIndex(entry => entry.id === newId) + 1\<close>.
\<close>

definition leaderboard_push ::
    "(string \<Rightarrow> int option) \<Rightarrow> lb_entry list option \<Rightarrow> new_entry \<Rightarrow> (lb_entry list \<times> int) option" where
  "leaderboard_push toNumber stored e =
     (let lb = (case stored of None \<Rightarrow> [] | Some l \<Rightarrow> l);
          newId = lastEntryId lb + 1;
          newEntry = entry_document toNumber newId e;
          lb1 = keepTop100 (sortByPrize (lb @ [newEntry]));
          leaderboardPosition = findIndex (\<lambda>entry. le_id entry = newId) lb1 + 1
      in if entry_valid toNumber e \<or> leaderboardPosition = 0
         then Some (lb1, leaderboardPosition) else None)"

text \<open>The entry of \<^verbatim>\<open>/api/game/complete\<close>, with
  \<^verbatim>\<open>completionTime: completionTime || "0:00"\<close>.\<close>

definition complete_entry :: "auth_user \<Rightarrow> complete_req \<Rightarrow> int \<Rightarrow> nat \<Rightarrow> new_entry" where
  "complete_entry u r finalPrize now =
     \<lparr> ne_userId = au_id u,
       ne_playerName = au_username u,
       ne_prizeWon = finalPrize,
       ne_questionsAnswered = js_or (cr_questionsAnswered r) 0,
       ne_totalQuestions = js_or (cr_totalQuestions r) 16,
       ne_completionDate = now,
       ne_completionTime =
         Some (case cr_completionTime r of
                 None \<Rightarrow> JStr ''0:00''
               | Some v \<Rightarrow> if js_truthy v then v else JStr ''0:00'') \<rparr>"

record db =
  db_stats :: "stats list"
  db_leaderboard :: "lb_entry list option"

record complete_resp =
  rs_success :: bool
  rs_message :: string
  rs_leaderboardPosition :: "int option"
  rs_gamesPlayed :: int
  rs_totalPrize :: int
  rs_accuracy :: int

text \<open>
  The handler: the Stats record is saved first; with a positive prize the leaderboard
  step follows, and when its save is rejected the answer is status 500, the
  Stats record being stored already.
\<close>

definition game_complete ::
    "(string \<Rightarrow> int option) \<Rightarrow> db \<Rightarrow> auth_user \<Rightarrow> complete_req \<Rightarrow> nat
       \<Rightarrow> db \<times> (handler_error + complete_resp)" where
  "game_complete toNumber d u r now =
     (let stats =
            (case findStats (db_stats d) (au_username u) of
               Some s \<Rightarrow> complete_stats_update s r
             | None \<Rightarrow> complete_stats_create (newStatsId (db_stats d)) u r);
          coll =
            (case findStats (db_stats d) (au_username u) of
               Some s \<Rightarrow> saveStats (db_stats d) stats
             | None \<Rightarrow> db_stats d @ [stats]);
          no_prize =
            (d\<lparr> db_stats := coll \<rparr>,
             Inr \<lparr> rs_success = True, rs_message = ''Game stats updated'',
                   rs_leaderboardPosition = None,
                   rs_gamesPlayed = st_gamesPlayed stats,
                   rs_totalPrize = st_totalPrizeMoney stats,
                   rs_accuracy = st_accuracy stats \<rparr>)
      in case cr_finalPrize r of
           None \<Rightarrow> no_prize
         | Some finalPrize \<Rightarrow>
             if finalPrize > 0 then
               (case leaderboard_push toNumber (db_leaderboard d)
                       (complete_entry u r finalPrize now) of
                  None \<Rightarrow> (d\<lparr> db_stats := coll \<rparr>, Inl ServerError)
                | Some (lb, leaderboardPosition) \<Rightarrow>
                    (\<lparr> db_stats = coll, db_leaderboard = Some lb \<rparr>,
                     Inr \<lparr> rs_success = True,
                           rs_message = ''Game results saved successfully'',
                           rs_leaderboardPosition = Some leaderboardPosition,
                           rs_gamesPlayed = st_gamesPlayed stats,
                           rs_totalPrize = st_totalPrizeMoney stats,
                           rs_accuracy = st_accuracy stats \<rparr>))
             else no_prize)"

text \<open>
  \<^verbatim>\<open>POST /api/complete-game\<close>: the entry's fields come from the body as they are
  (\<open>userId\<close> and \<open>playerName\<close> taken to be strings, \<open>prizeWon\<close> a number).
  The result is the stored document and the answer: the position, or status 500 with
  the document unchanged.
\<close>

record complete_game_body =
  cg_userId :: string
  cg_playerName :: string
  cg_prizeWon :: int
  cg_questionsAnswered :: "int option"
  cg_totalQuestions :: "int option"
  cg_completionTime :: "js_value option"

definition complete_game ::
    "(string \<Rightarrow> int option) \<Rightarrow> lb_entry list option \<Rightarrow> complete_game_body \<Rightarrow> nat
       \<Rightarrow> lb_entry list option \<times> (handler_error + int)" where
  "complete_game toNumber stored body now =
     (case leaderboard_push toNumber stored
             \<lparr> ne_userId = cg_userId body,
               ne_playerName = cg_playerName body,
               ne_prizeWon = cg_prizeWon body,
               ne_questionsAnswered = (case cg_questionsAnswered body of None \<Rightarrow> 0 | Some n \<Rightarrow> n),
               ne_totalQuestions = (case cg_totalQuestions body of None \<Rightarrow> 0 | Some n \<Rightarrow> n),
               ne_completionDate = now,
               ne_completionTime = cg_completionTime body \<rparr> of
        None \<Rightarrow> (stored, Inl ServerError)
      | Some (lb, leaderboardPosition) \<Rightarrow> (Some lb, Inr leaderboardPosition))"

subsection \<open>The username/score leaderboard: \<^verbatim>\<open>POST /api/stats\<close> of the earlier revision\<close>

record score_entry =
  se_username :: string
  se_score :: int
  se_questionsAnswered :: int
  se_correctAnswers :: int
  se_averageTimePerQuestion :: int
  se_totalTime :: int
  se_date :: nat

text \<open>The part of the request body that reaches the leaderboard.\<close>

record game_stats =
  gs_score :: int
  gs_questionsAnswered :: int
  gs_correctAnswers :: int
  gs_averageTimePerQuestion :: int
  gs_totalTime :: int

definition leaderboardEntry :: "string \<Rightarrow> game_stats \<Rightarrow> nat \<Rightarrow> score_entry" where
  "leaderboardEntry username gameStats now =
     \<lparr> se_username = username,
       se_score = gs_score gameStats,
       se_questionsAnswered = gs_questionsAnswered gameStats,
       se_correctAnswers = gs_correctAnswers gameStats,
       se_averageTimePerQuestion = gs_averageTimePerQuestion gameStats,
       se_totalTime = gs_totalTime gameStats,
       se_date = now \<rparr>"

text \<open>\<^verbatim>\<open>sort((a, b) => b.score - a.score)\<close>: a stable sort, descending by score.\<close>

definition sortByScore :: "score_entry list \<Rightarrow> score_entry list" where
  "sortByScore lb = sort_key (\<lambda>e. - se_score e) lb"

text \<open>
  \<^verbatim>\<open>updateLeaderboard(username, gameStats)\<close> on the JSON file: a missing file is
  the empty list; an entry of the same username is replaced only by a strictly greater
  score; a new username is pushed; then sort and truncate.
\<close>

definition updateLeaderboard ::
    "score_entry list option \<Rightarrow> string \<Rightarrow> game_stats \<Rightarrow> nat \<Rightarrow> score_entry list" where
  "updateLeaderboard stored username gameStats now =
     (let lb = (case stored of None \<Rightarrow> [] | Some l \<Rightarrow> l);
          userIndex = findIndex (\<lambda>entry. se_username entry = username) lb;
          entry = leaderboardEntry username gameStats now;
          lb1 =
            (if userIndex \<ge> 0 then
               (if se_score entry > se_score (lb ! nat userIndex)
                then lb[nat userIndex := entry] else lb)
             else lb @ [entry])
      in keepTop100 (sortByScore lb1))"

text \<open>
  The leaderboard part of the handler \<^verbatim>\<open>POST /api/stats\<close> on the stored document
  (\<open>None\<close>: \<^verbatim>\<open>findOne\<close> found none), written out as the handler has it.
\<close>

definition post_stats_leaderboard ::
    "score_entry list option \<Rightarrow> string \<Rightarrow> game_stats \<Rightarrow> nat \<Rightarrow> score_entry list" where
  "post_stats_leaderboard stored username body now =
     (let entries = (case stored of None \<Rightarrow> [] | Some l \<Rightarrow> l);
          entry =
            \<lparr> se_username = username,
              se_score = gs_score body,
              se_questionsAnswered = gs_questionsAnswered body,
              se_correctAnswers = gs_correctAnswers body,
              se_averageTimePerQuestion = gs_averageTimePerQuestion body,
              se_totalTime = gs_totalTime body,
              se_date = now \<rparr>;
          existingEntryIndex = findIndex (\<lambda>entry. se_username entry = username) entries;
          entries1 =
            (if existingEntryIndex \<ge> 0 then
               (if se_score entry > se_score (entries ! nat existingEntryIndex)
                then entries[nat existingEntryIndex := entry] else entries)
             else entries @ [entry])
      in keepTop100 (sortByScore entries1))"

subsection \<open>Question batches: \<^verbatim>\<open>POST /api/questions\<close> (level-filtered variant)\<close>

text \<open>
  The state the handler reads and writes: the \<open>questionsAnswered\<close> array of each user
  document (\<open>None\<close>: no document), the Question collection in storage order (each
  document with its level), the level files, and \<^verbatim>\<open>user_questions.json\<close> (\<open>None\<close>:
  the file does not exist). The store enforces the unique index on the question id,
  and a user document needs an email and a password (\<^verbatim>\<open>src/db/models.js\<close> 40-48),
  so the handler's \<^verbatim>\<open>new User({ username, questionsAnswered: [] }).save()\<close> for
  an unknown user is rejected.
\<close>

record qstate =
  qs_users :: "string \<Rightarrow> string list option"
  qs_questions :: "(string \<times> question) list"
  qs_files :: data_dir
  qs_user_questions :: "(string \<Rightarrow> string list option) option"

text \<open>
  \<^verbatim>\<open>getUserQuestions\<close>: without the file the result is the object \<^verbatim>\<open>{}\<close>, which
  is no array (\<open>None\<close> here); with it, \<^verbatim>\<open>data[username] || []\<close>.
\<close>

definition getUserQuestions :: "(string \<Rightarrow> string list option) option \<Rightarrow> string \<Rightarrow> string list option" where
  "getUserQuestions file username =
     (case file of
        None \<Rightarrow> None
      | Some data \<Rightarrow> Some (case data username of None \<Rightarrow> [] | Some ids \<Rightarrow> ids))"

definition setUserQuestions ::
    "(string \<Rightarrow> string list option) option \<Rightarrow> string \<Rightarrow> string list \<Rightarrow> (string \<Rightarrow> string list option)" where
  "setUserQuestions file username questions =
     (let data = (case file of None \<Rightarrow> Map.empty | Some d \<Rightarrow> d)
      in data(username \<mapsto> questions))"

text \<open>\<^verbatim>\<open>.limit(n)\<close> of the store: \<open>0\<close> means no limit.\<close>

definition limit :: "nat \<Rightarrow> 'a list \<Rightarrow> 'a list" where
  "limit n xs = (if n = 0 then xs else take n xs)"

text \<open>
  \<^verbatim>\<open>Question.insertMany(docs)\<close>, in order, under the unique index on \<open>id\<close>: the
  first document whose id is already stored stops the insertion with an error; the
  documents before it stay inserted.
\<close>

fun insertMany :: "(string \<times> question) list \<Rightarrow> (string \<times> question) list \<Rightarrow> (string \<times> question) list \<times> bool" where
  "insertMany coll [] = (coll, True)"
| "insertMany coll (d # ds) =
     (if q_id (snd d) \<in> set (map (\<lambda>x. q_id (snd x)) coll) then (coll, False)
      else insertMany (coll @ [d]) ds)"

definition post_questions ::
    "qstate \<Rightarrow> string \<Rightarrow> string \<Rightarrow> nat \<Rightarrow> qstate \<times> (handler_error + question list)" where
  "post_questions st username level count' =
     (if level \<notin> set LEVELS then (st, Inl BadRequest)
      else
        (case qs_users st username of
           None \<Rightarrow> (st, Inl ServerError)
         | Some answered \<Rightarrow>
        (let questions =
               limit count'
                 (filter (\<lambda>x. fst x = level \<and> q_id (snd x) \<notin> set answered) (qs_questions st))
         in if length questions = 0 then
              (case getUserQuestions (qs_user_questions st) username of
                 None \<Rightarrow> (st, Inl ServerError)
               | Some userQuestions \<Rightarrow>
                   (let allQuestions = getQuestions (qs_files st) level;
                        unusedQuestions =
                          filter (\<lambda>q. q_id q \<notin> set userQuestions) allQuestions;
                        selected = take count' unusedQuestions;
                        st2 = st\<lparr> qs_user_questions :=
                                Some (setUserQuestions (qs_user_questions st) username
                                  (userQuestions @ map q_id selected)) \<rparr>;
                        inserted = insertMany (qs_questions st) (map (\<lambda>q. (level, q)) selected)
                    in (st2\<lparr> qs_questions := fst inserted \<rparr>,
                        if snd inserted then Inr selected else Inl ServerError)))
            else
              (st\<lparr> qs_users :=
                  (qs_users st)(username \<mapsto> answered @ map (\<lambda>x. q_id (snd x)) questions) \<rparr>,
               Inr (map snd questions)))))"

subsection \<open>Building a game: \<^verbatim>\<open>POST /api/game/questions\<close>\<close>

text \<open>\<^verbatim>\<open>getAllQuestions\<close>: the contents of \<^verbatim>\<open>questions.json\<close>, empty when the file
  does not exist.\<close>

definition getAllQuestions :: "question list option \<Rightarrow> question list" where
  "getAllQuestions file = (case file of None \<Rightarrow> [] | Some qs \<Rightarrow> qs)"

text \<open>
  \<^verbatim>\<open>getRandomQuestions(questionsPool, count)\<close>. The argument \<open>shuffled\<close> stands for
  \<^verbatim>\<open>[...questionsPool].sort(() => Math.random() - 0.5)\<close>, some rearrangement of the
  pool that the random comparator produces.
\<close>

definition getRandomQuestions :: "'a list \<Rightarrow> 'a list \<Rightarrow> nat \<Rightarrow> 'a list" where
  "getRandomQuestions shuffled questionsPool count' =
     (if length questionsPool \<le> count' then questionsPool else take count' shuffled)"

definition prizeStructure :: "int list" where
  "prizeStructure =
     [1000, 2000, 3000,
      5000, 10000, 20000, 50000, 100000, 200000,
      500000, 1000000, 2000000, 5000000, 10000000, 50000000, 700000000]"

text \<open>\<^verbatim>\<open>prizeStructure[i]\<close>, \<^verbatim>\<open>undefined\<close> past the end.\<close>

definition prizeAt :: "nat \<Rightarrow> int option" where
  "prizeAt i = (if i < length prizeStructure then Some (prizeStructure ! i) else None)"

text \<open>The time limit and level of a position (zero-based).\<close>

definition timeLimitAt :: "nat \<Rightarrow> nat" where
  "timeLimitAt i = (if i \<ge> 3 \<and> i < 9 then 20 else if i \<ge> 9 then 30 else 10)"

definition levelAt :: "nat \<Rightarrow> string" where
  "levelAt i = (if i \<ge> 3 \<and> i < 9 then ''medium'' else if i \<ge> 9 then ''hard'' else ''easy'')"

record game_item =
  gi_id :: string
  gi_question :: string
  gi_options :: "string list"
  gi_answer :: int
  gi_questionNumber :: nat
  gi_timeLimit :: nat
  gi_level :: string
  gi_prizeValue :: "int option"

definition buildItem :: "nat \<Rightarrow> question \<Rightarrow> int option \<Rightarrow> game_item" where
  "buildItem i q prize =
     \<lparr> gi_id = q_id q,
       gi_question = q_question q,
       gi_options = q_options q,
       gi_answer = indexOf (q_options q) (q_answer q),
       gi_questionNumber = i + 1,
       gi_timeLimit = timeLimitAt i,
       gi_level = levelAt i,
       gi_prizeValue = prize \<rparr>"

text \<open>
  The padding loop
  \<^verbatim>\<open>while (allQuestions.length < 16 && allAvailableQuestions.length > 0)\<close>. Each
  iteration consumes one random draw; \<open>r mod length\<close> is the index
  \<^verbatim>\<open>Math.floor(Math.random() * length)\<close>. The result is \<open>None\<close> when the draws are
  used up and the loop condition still holds: the loop has not ended yet.
\<close>

fun pad :: "question list \<Rightarrow> nat list \<Rightarrow> game_item list \<Rightarrow> game_item list option" where
  "pad allAvailableQuestions [] allQuestions =
     (if length allQuestions < 16 \<and> length allAvailableQuestions > 0 then None
      else Some allQuestions)"
| "pad allAvailableQuestions (r # draws) allQuestions =
     (if length allQuestions < 16 \<and> length allAvailableQuestions > 0 then
        (let randomQ = allAvailableQuestions ! (r mod length allAvailableQuestions);
             isDuplicate = list_ex (\<lambda>q. gi_id q = q_id randomQ) allQuestions
         in if \<not> isDuplicate then
              (let questionIndex = length allQuestions
               in pad allAvailableQuestions draws
                    (allQuestions @
                       [buildItem questionIndex randomQ
                          (Some (js_or (prizeAt questionIndex) 1000000))]))
            else pad allAvailableQuestions draws allQuestions)
      else Some allQuestions)"

record game_resp =
  gr_questions :: "game_item list"
  gr_totalQuestions :: nat

text \<open>
  The handler from the prize table on (the user document it finds or creates first is
  not used afterwards). \<open>None\<close>: with these draws the handler has not answered.
\<close>

definition game_questions :: "question list option \<Rightarrow> question list \<Rightarrow> nat list \<Rightarrow> game_resp option" where
  "game_questions file shuffled draws =
     (let allAvailableQuestions = getAllQuestions file;
          selectedQuestions = getRandomQuestions shuffled allAvailableQuestions 16;
          allQuestions =
            map (\<lambda>(i, q). buildItem i q (prizeAt i)) (enumerate 0 selectedQuestions);
          padded =
            (if length allQuestions < 16 then pad allAvailableQuestions draws allQuestions
             else Some allQuestions)
      in map_option (\<lambda>qs. \<lparr> gr_questions = take 16 qs, gr_totalQuestions = 16 \<rparr>) padded)"

subsection \<open>Sample data\<close>

text \<open>
  The conversion used in the examples: \<^verbatim>\<open>Number(s)\<close> for a string of decimal
  digits, not a number for anything else. The examples apply it to \<open>''0''\<close>,
  \<open>''0:00''\<close> and \<open>''2:30''\<close> only.
\<close>

definition decimal_toNumber :: "string \<Rightarrow> int option" where
  "decimal_toNumber s =
     (if s \<noteq> [] \<and> list_all (\<lambda>c. (48 :: nat) \<le> of_char c \<and> of_char c \<le> (57 :: nat)) s
      then Some (fold (\<lambda>c n. 10 * n + (of_char c - 48)) s 0) else None)"

definition sample_question :: "string \<Rightarrow> question" where
  "sample_question i =
     \<lparr> q_id = i, q_question = ''Capital of France?'',
       q_options = [''Rome'', ''Paris'', ''Oslo'', ''Bern''], q_answer = ''Paris'' \<rparr>"

definition sample_files :: data_dir where
  "sample_files level =
     (if level = ''easy'' then Some [sample_question ''e1'', sample_question ''e2'', sample_question ''e3'']
      else None)"




definition bob :: auth_user where
  "bob = \<lparr> au_username = ''bob'', au_id = ''qt_7'' \<rparr>"

definition alice :: auth_user where
  "alice = \<lparr> au_username = ''alice'', au_id = ''a'' \<rparr>"

definition empty_db :: db where
  "empty_db = \<lparr> db_stats = [], db_leaderboard = None \<rparr>"

definition completion :: "int \<Rightarrow> int \<Rightarrow> int option \<Rightarrow> js_value option \<Rightarrow> complete_req" where
  "completion answered correct prize time =
     \<lparr> cr_questionsAnswered = Some answered, cr_correctAnswers = correct,
       cr_totalQuestions = Some 16, cr_finalPrize = prize,
       cr_completionTime = time, cr_gameCompleted = False \<rparr>"

definition sample_entry :: "int \<Rightarrow> int \<Rightarrow> lb_entry" where
  "sample_entry i prize =
     \<lparr> le_id = i, le_userId = ''qt_7'', le_playerName = ''bob'', le_prizeWon = prize,
       le_questionsAnswered = 10, le_totalQuestions = 16, le_completionDate = 0,
       le_completionTime = Some 150 \<rparr>"

definition sample_new_entry :: "int \<Rightarrow> new_entry" where
  "sample_new_entry prize =
     \<lparr> ne_userId = ''qt_7'', ne_playerName = ''bob'', ne_prizeWon = prize,
       ne_questionsAnswered = 10, ne_totalQuestions = 16, ne_completionDate = 0,
       ne_completionTime = Some (JNum 150) \<rparr>"

definition sample_body :: "int \<Rightarrow> js_value option \<Rightarrow> complete_game_body" where
  "sample_body prize time =
     \<lparr> cg_userId = ''qt_7'', cg_playerName = ''bob'', cg_prizeWon = prize,
       cg_questionsAnswered = Some 10, cg_totalQuestions = Some 16,
       cg_completionTime = time \<rparr>"

definition score_of :: "int \<Rightarrow> game_stats" where
  "score_of n =
     \<lparr> gs_score = n, gs_questionsAnswered = 10, gs_correctAnswers = 8,
       gs_averageTimePerQuestion = 5, gs_totalTime = 50 \<rparr>"

definition sample_entries :: "new_entry list" where
  "sample_entries = map sample_new_entry [1..105]"

definition sample_scores :: "(string \<times> game_stats) list" where
  "sample_scores = map (\<lambda>n. (replicate (nat n) CHR ''u'', score_of n)) [1..105]"

definition full_board :: "lb_entry list" where
  "full_board = map (\<lambda>i. sample_entry i 500) [1..100]"

definition fresh_store :: qstate where
  "fresh_store =
     \<lparr> qs_users = Map.empty(''alice'' \<mapsto> []), qs_questions = [],
       qs_files = sample_files, qs_user_questions = Some Map.empty \<rparr>"


section \<open>Properties\<close>

subsection \<open>Helper facts\<close>

lemma find_None_image: "find (\<lambda>q. f q = k) xs = None \<longleftrightarrow> k \<notin> f ` set xs"
  by (induction xs) auto



lemma findIndex_ge: "- 1 \<le> findIndex P xs"
  by (induction xs) (auto simp: Let_def)

lemma findIndex_neg_iff: "findIndex P xs < 0 \<longleftrightarrow> (\<forall>x \<in> set xs. \<not> P x)"
proof (induction xs)
  case Nil
  then show ?case by simp
next
  case (Cons a xs)
  then show ?case
    using findIndex_ge [of P xs] by (auto simp: Let_def)
qed

lemma findIndex_none: "findIndex P xs = - 1 \<longleftrightarrow> (\<forall>x \<in> set xs. \<not> P x)"
  using findIndex_ge [of P xs] findIndex_neg_iff [of P xs] by auto

lemma findIndex_found:
  "\<exists>x \<in> set xs. P x \<Longrightarrow>
     0 \<le> findIndex P xs \<and> nat (findIndex P xs) < length xs \<and> P (xs ! nat (findIndex P xs)) \<and>
     (\<forall>j < nat (findIndex P xs). \<not> P (xs ! j))"
proof (induction xs)
  case Nil
  then show ?case by simp
next
  case (Cons a xs)
  show ?case
  proof (cases "P a")
    case True
    then show ?thesis by simp
  next
    case False
    with Cons.prems have ex: "\<exists>x \<in> set xs. P x" by auto
    from Cons.IH [OF ex] have ih: "0 \<le> findIndex P xs" "nat (findIndex P xs) < length xs"
      "P (xs ! nat (findIndex P xs))" "\<forall>j < nat (findIndex P xs). \<not> P (xs ! j)" by auto
    have idx: "nat (findIndex P xs + 1) = Suc (nat (findIndex P xs))"
      using ih(1) by simp
    show ?thesis
      using False ih idx by (auto simp: Let_def nth_Cons split: nat.splits)
  qed
qed

lemma fold_max_ge: "(a::int) \<le> fold max xs a \<and> (\<forall>x \<in> set xs. x \<le> fold max xs a)"
proof (induction xs arbitrary: a)
  case Nil
  then show ?case by simp
next
  case (Cons x xs)
  from Cons [of "max x a"] show ?case by auto
qed

lemma lastEntryId_ge: "e \<in> set lb \<Longrightarrow> le_id e \<le> lastEntryId lb"
  using fold_max_ge by (cases lb) (auto simp: lastEntryId_def)

lemma set_keepTop100: "set (keepTop100 xs) \<subseteq> set xs"
  by (auto simp: keepTop100_def dest: in_set_takeD)

lemma length_keepTop100: "length (keepTop100 xs) \<le> 100"
  by (simp add: keepTop100_def)

lemma keepTop100_take: "keepTop100 xs = take 100 xs"
  by (simp add: keepTop100_def)

lemma set_sortByPrize: "set (sortByPrize xs) = set xs"
  by (simp add: sortByPrize_def)


subsection \<open>check-answer\<close>

text \<open>
  In the two earlier revisions, which declare \<^verbatim>\<open>LEVELS\<close> and
  \<^verbatim>\<open>getQuestions\<close>, the handler does what is expected of it: for a valid level an
  absent id gives not-found, and a present id gives \<open>correct\<close> exactly when the
  submitted answer equals the stored answer of the first question with that id, with
  \<open>correctAnswer\<close> null on a correct submission and the stored answer otherwise.
\<close>

lemma check_answer_earlier_revision:
  assumes "level \<in> set LEVELS"
  shows "(questionId \<notin> q_id ` set (getQuestions files level) \<longrightarrow>
            check_answer earlier_revision files level questionId answer = QuestionNotFound) \<and>
         (\<forall>q. find (\<lambda>q. q_id q = questionId) (getQuestions files level) = Some q \<longrightarrow>
            check_answer earlier_revision files level questionId answer =
              Checked (q_answer q = answer)
                (if q_answer q = answer then None else Some (q_answer q)))"
proof (intro conjI impI allI)
  assume "questionId \<notin> q_id ` set (getQuestions files level)"
  then have "find (\<lambda>q. q_id q = questionId) (getQuestions files level) = None"
    by (simp add: find_None_image)
  with assms show "check_answer earlier_revision files level questionId answer = QuestionNotFound"
    by (simp add: check_answer_def earlier_revision_def)
next
  fix q
  assume "find (\<lambda>q. q_id q = questionId) (getQuestions files level) = Some q"
  with assms show "check_answer earlier_revision files level questionId answer =
      Checked (q_answer q = answer) (if q_answer q = answer then None else Some (q_answer q))"
    by (simp add: check_answer_def earlier_revision_def Let_def)
qed

lemma check_answer_earlier_example:
  "check_answer earlier_revision sample_files ''easy'' ''h9'' ''Paris'' = QuestionNotFound \<and>
   check_answer earlier_revision sample_files ''easy'' ''e2'' ''Paris'' = Checked True None \<and>
   check_answer earlier_revision sample_files ''easy'' ''e2'' ''Rome''
     = Checked False (Some ''Paris'')"
  by (simp add: check_answer_def earlier_revision_def LEVELS_def getQuestions_def
      sample_files_def sample_question_def)

text \<open>
  Claim C8, evaluated on the handler it cites (\<^verbatim>\<open>src/index.js\<close> 1031-1046, the
  current revision). That revision declares neither \<^verbatim>\<open>LEVELS\<close> nor
  \<^verbatim>\<open>getQuestions\<close>, so the first statement of the handler throws for every
  request: no level, question id or answer gives the not-found result or a checked
  result, only the error.
\<close>

theorem check_answer_current_revision_throws:
  "check_answer current_revision files level questionId answer = ReferenceError \<and>
   check_answer current_revision sample_files ''easy'' ''h9'' ''Paris'' \<noteq> QuestionNotFound \<and>
   check_answer current_revision sample_files ''easy'' ''e2'' ''Paris'' \<noteq> Checked True None"
  by (simp add: check_answer_def current_revision_def)


subsection \<open>Stats update through \<^verbatim>\<open>POST /api/stats\<close>\<close>









subsection \<open>Game completion: statistics\<close>


lemma js_round_percent_examples:
  "js_round_percent 8 10 = 80" "js_round_percent 5 20 = 25" "js_round_percent 13 20 = 65"
  by code_simp+

text \<open>
  Claim C1, evaluated on the two completions of the claim for user bob: the first
  (answered 10, correct 8) creates the record, the second (answered 10, correct 5)
  updates it. The counters are cumulative (2 games, 20 answers), but the stored accuracy
  is \<open>round(100 * 5 / 20) = 25\<close>: the numerator is the last game's correct answers
  alone, not the cumulative 13 that gives 65.
\<close>

theorem complete_twice_accuracy:
  "map (\<lambda>s. (st_username s, st_gamesPlayed s, st_questionsAnswered s, st_accuracy s))
     (db_stats (fst (game_complete decimal_toNumber
        (fst (game_complete decimal_toNumber empty_db bob
                (completion 10 8 None (Some (JStr ''2:30''))) 0))
        bob (completion 10 5 None (Some (JStr ''2:30''))) 1)))
   = [(''bob'', 2, 20, 25)]"
  by (simp add: game_complete_def empty_db_def bob_def completion_def findStats_def
      newStatsId_def complete_stats_create_def complete_stats_update_def
      js_round_percent_examples js_or_def Let_def)




subsection \<open>Leaderboard position\<close>

lemma leaderboard_push_Some:
  assumes "leaderboard_push toNumber stored e = Some (lb', pos)"
  shows "lb' = keepTop100 (sortByPrize ((case stored of None \<Rightarrow> [] | Some l \<Rightarrow> l)
           @ [entry_document toNumber
                (lastEntryId (case stored of None \<Rightarrow> [] | Some l \<Rightarrow> l) + 1) e]))"
    and "pos = findIndex (\<lambda>entry. le_id entry
            = lastEntryId (case stored of None \<Rightarrow> [] | Some l \<Rightarrow> l) + 1) lb' + 1"
    and "entry_valid toNumber e \<or> pos = 0"
  using assms by (auto simp: leaderboard_push_def Let_def split: if_splits)

lemma leaderboard_push_valid:
  assumes "entry_valid toNumber e"
  shows "\<exists>lb' pos. leaderboard_push toNumber stored e = Some (lb', pos)"
  using assms by (simp add: leaderboard_push_def Let_def)

lemma leaderboard_push_members:
  assumes "leaderboard_push toNumber stored e = Some (lb', pos)"
  shows "set lb' \<subseteq> set (case stored of None \<Rightarrow> [] | Some l \<Rightarrow> l)
           \<union> {entry_document toNumber
                 (lastEntryId (case stored of None \<Rightarrow> [] | Some l \<Rightarrow> l) + 1) e}"
    and "length lb' \<le> 100"
  using set_keepTop100 [of "sortByPrize ((case stored of None \<Rightarrow> [] | Some l \<Rightarrow> l)
      @ [entry_document toNumber
           (lastEntryId (case stored of None \<Rightarrow> [] | Some l \<Rightarrow> l) + 1) e])"]
  unfolding leaderboard_push_Some(1) [OF assms]
  by (auto simp: set_sortByPrize length_keepTop100)

lemma insort_key_snoc:
  "f x \<le> f e \<Longrightarrow> insort_key f x (ys @ [e]) = insort_key f x ys @ [e]"
  by (induction ys) simp_all

lemma sort_key_snoc_last:
  "\<forall>x \<in> set xs. f x \<le> f e \<Longrightarrow> sort_key f (xs @ [e]) = sort_key f xs @ [e]"
  by (induction xs) (simp_all add: insort_key_snoc)

lemma leaderboard_push_full:
  assumes "100 \<le> length (case stored of None \<Rightarrow> [] | Some l \<Rightarrow> l)"
    and "\<forall>x \<in> set (case stored of None \<Rightarrow> [] | Some l \<Rightarrow> l). ne_prizeWon e \<le> le_prizeWon x"
  shows "leaderboard_push toNumber stored e
     = Some (take 100 (sortByPrize (case stored of None \<Rightarrow> [] | Some l \<Rightarrow> l)), 0)"
proof -
  define lb where "lb = (case stored of None \<Rightarrow> [] | Some l \<Rightarrow> l)"
  define newEntry where "newEntry = entry_document toNumber (lastEntryId lb + 1) e"
  have "\<forall>x \<in> set lb. - le_prizeWon x \<le> - le_prizeWon newEntry"
    using assms(2) by (simp add: lb_def newEntry_def entry_document_def)
  then have "sortByPrize (lb @ [newEntry]) = sortByPrize lb @ [newEntry]"
    unfolding sortByPrize_def by (rule sort_key_snoc_last)
  moreover have "100 \<le> length (sortByPrize lb)"
    using assms(1) by (simp add: sortByPrize_def lb_def)
  ultimately have cut: "keepTop100 (sortByPrize (lb @ [newEntry])) = take 100 (sortByPrize lb)"
    by (simp add: keepTop100_def)
  have "\<forall>x \<in> set (take 100 (sortByPrize lb)). le_id x \<noteq> lastEntryId lb + 1"
    using lastEntryId_ge [of _ lb] by (fastforce dest: in_set_takeD simp: set_sortByPrize)
  then have "findIndex (\<lambda>entry. le_id entry = lastEntryId lb + 1) (take 100 (sortByPrize lb)) = - 1"
    by (simp add: findIndex_none)
  with cut show ?thesis
    by (simp add: leaderboard_push_def Let_def lb_def [symmetric] newEntry_def [symmetric])
qed

lemma leaderboard_push_room:
  assumes "length (case stored of None \<Rightarrow> [] | Some l \<Rightarrow> l) < 100"
    and "leaderboard_push toNumber stored e = Some (lb', pos)"
  shows "entry_document toNumber (lastEntryId (case stored of None \<Rightarrow> [] | Some l \<Rightarrow> l) + 1) e
     \<in> set lb'"
  unfolding leaderboard_push_Some(1) [OF assms(2)]
  using assms(1) by (simp add: keepTop100_def sortByPrize_def)

lemma decimal_toNumber_time: "decimal_toNumber ''0:00'' = None" "decimal_toNumber ''2:30'' = None"
  by (simp_all add: decimal_toNumber_def)

lemma full_board_props:
  "length full_board = 100" "\<forall>x \<in> set full_board. le_prizeWon x = 500"
  by (auto simp: full_board_def sample_entry_def)

text \<open>
  Claim C5 as stated fails. A valid entry with prize 100 sent to
  \<^verbatim>\<open>/api/complete-game\<close> when the board holds 100 entries of prize 500 is cut off
  by the truncation, and the answer is the ordinary success reply with
  \<open>leaderboardPosition\<close> 0, no separate unranked result. A completion with prize 100 and
  no \<open>completionTime\<close> gets neither: the entry's time defaults to the string
  \<open>''0:00''\<close>, the save is rejected and the answer is status 500.
\<close>

theorem leaderboard_position_counterexample:
  "snd (complete_game decimal_toNumber (Some full_board) (sample_body 100 (Some (JNum 150))) 0)
     = Inr 0 \<and>
   game_complete decimal_toNumber
       \<lparr> db_stats = [], db_leaderboard = Some full_board \<rparr> alice
       (completion 10 8 (Some 100) (Some (JNum 150))) 0
     = (\<lparr> db_stats = [complete_stats_create 1 alice (completion 10 8 (Some 100) (Some (JNum 150)))],
          db_leaderboard = Some (take 100 (sortByPrize full_board)) \<rparr>,
        Inr \<lparr> rs_success = True, rs_message = ''Game results saved successfully'',
              rs_leaderboardPosition = Some 0, rs_gamesPlayed = 1, rs_totalPrize = 100,
              rs_accuracy = 80 \<rparr>) \<and>
   snd (game_complete decimal_toNumber empty_db alice (completion 10 8 (Some 100) None) 0)
     = Inl ServerError \<and>
   db_leaderboard (fst (game_complete decimal_toNumber empty_db alice
                          (completion 10 8 (Some 100) None) 0)) = None"
proof -
  have full: "leaderboard_push decimal_toNumber (Some full_board) e
      = Some (take 100 (sortByPrize full_board), 0)" if "ne_prizeWon e = 100" for e
    using leaderboard_push_full [of "Some full_board" e decimal_toNumber] full_board_props that
    by simp
  have a: "snd (complete_game decimal_toNumber (Some full_board)
      (sample_body 100 (Some (JNum 150))) 0) = Inr 0"
    by (simp add: complete_game_def full sample_body_def)
  have b: "game_complete decimal_toNumber
       \<lparr> db_stats = [], db_leaderboard = Some full_board \<rparr> alice
       (completion 10 8 (Some 100) (Some (JNum 150))) 0
     = (\<lparr> db_stats = [complete_stats_create 1 alice (completion 10 8 (Some 100) (Some (JNum 150)))],
          db_leaderboard = Some (take 100 (sortByPrize full_board)) \<rparr>,
        Inr \<lparr> rs_success = True, rs_message = ''Game results saved successfully'',
              rs_leaderboardPosition = Some 0, rs_gamesPlayed = 1, rs_totalPrize = 100,
              rs_accuracy = 80 \<rparr>)"
    by (simp add: game_complete_def Let_def findStats_def newStatsId_def full complete_entry_def
        completion_def complete_stats_create_def js_or_def js_round_percent_examples)
  have invalid: "leaderboard_push decimal_toNumber None
      (complete_entry alice (completion 10 8 (Some 100) None) 100 0) = None"
    by (simp add: leaderboard_push_def Let_def complete_entry_def completion_def alice_def
        entry_valid_def entry_document_def castNumber_def decimal_toNumber_time lastEntryId_def
        sortByPrize_def keepTop100_def)
  have c: "game_complete decimal_toNumber empty_db alice (completion 10 8 (Some 100) None) 0
      = (empty_db\<lparr> db_stats := [complete_stats_create 1 alice (completion 10 8 (Some 100) None)] \<rparr>,
         Inl ServerError)"
    using invalid
    by (simp add: game_complete_def Let_def findStats_def newStatsId_def empty_db_def
        completion_def)
  have "db_leaderboard empty_db = None"
    by (simp add: empty_db_def)
  with a b show ?thesis
    by (simp add: c)
qed

text \<open>
  Claim C5, amended. Whenever the leaderboard step stores its list, the entry with the
  new id, which exceeds every stored id, is the submitted entry or nobody. When it is
  still in the list, it passed the validation and the returned position is its 1-based
  index there (at most 100, and no earlier element carries the id); when it was cut off
  the returned position is the number \<open>0\<close>, the value that
  \<^verbatim>\<open>findIndex(...) + 1\<close> gives for "not found". Both cases occur: with fewer than
  100 stored entries the entry stays, and with 100 or more stored entries that all have
  at least its prize it is cut off. Both handlers answer with this list stored and this
  position in their success reply.
\<close>

theorem leaderboard_position_is_rank:
  assumes push: "leaderboard_push toNumber stored e = Some (lb', pos)"
  shows "((\<exists>x \<in> set lb'. le_id x = lastEntryId (case stored of None \<Rightarrow> [] | Some l \<Rightarrow> l) + 1) \<longrightarrow>
            entry_valid toNumber e \<and>
            1 \<le> pos \<and> pos \<le> 100 \<and> nat pos \<le> length lb' \<and>
            lb' ! nat (pos - 1)
              = entry_document toNumber
                  (lastEntryId (case stored of None \<Rightarrow> [] | Some l \<Rightarrow> l) + 1) e \<and>
            (\<forall>j < nat (pos - 1).
               le_id (lb' ! j) \<noteq> lastEntryId (case stored of None \<Rightarrow> [] | Some l \<Rightarrow> l) + 1)) \<and>
         (\<not> (\<exists>x \<in> set lb'. le_id x = lastEntryId (case stored of None \<Rightarrow> [] | Some l \<Rightarrow> l) + 1) \<longrightarrow>
            pos = 0) \<and>
         ((entry_document toNumber
             (lastEntryId (case stored of None \<Rightarrow> [] | Some l \<Rightarrow> l) + 1) e \<in> set lb')
            = (\<exists>x \<in> set lb'. le_id x = lastEntryId (case stored of None \<Rightarrow> [] | Some l \<Rightarrow> l) + 1)) \<and>
         (length (case stored of None \<Rightarrow> [] | Some l \<Rightarrow> l) < 100 \<longrightarrow> 1 \<le> pos) \<and>
         (100 \<le> length (case stored of None \<Rightarrow> [] | Some l \<Rightarrow> l) \<and>
          (\<forall>x \<in> set (case stored of None \<Rightarrow> [] | Some l \<Rightarrow> l).
             ne_prizeWon e \<le> le_prizeWon x) \<longrightarrow> pos = 0) \<and>
         (\<forall>d u r now p.
            cr_finalPrize r = Some p \<and> 0 < p \<and> db_leaderboard d = stored \<and>
            complete_entry u r p now = e \<longrightarrow>
              db_leaderboard (fst (game_complete toNumber d u r now)) = Some lb' \<and>
              (\<exists>resp. snd (game_complete toNumber d u r now) = Inr resp \<and>
                 rs_success resp \<and> rs_leaderboardPosition resp = Some pos)) \<and>
         (\<forall>body now.
            \<lparr> ne_userId = cg_userId body, ne_playerName = cg_playerName body,
              ne_prizeWon = cg_prizeWon body,
              ne_questionsAnswered = (case cg_questionsAnswered body of None \<Rightarrow> 0 | Some n \<Rightarrow> n),
              ne_totalQuestions = (case cg_totalQuestions body of None \<Rightarrow> 0 | Some n \<Rightarrow> n),
              ne_completionDate = now, ne_completionTime = cg_completionTime body \<rparr> = e \<longrightarrow>
              complete_game toNumber stored body now = (Some lb', Inr pos))"
proof -
  define lb where "lb = (case stored of None \<Rightarrow> [] | Some l \<Rightarrow> l)"
  define newId where "newId = lastEntryId lb + 1"
  define newEntry where "newEntry = entry_document toNumber newId e"
  note mem = leaderboard_push_members [OF push, folded lb_def, folded newId_def, folded newEntry_def]
  note psn = leaderboard_push_Some(2,3) [OF push, folded lb_def, folded newId_def]
  have old: "x \<in> set lb \<Longrightarrow> le_id x \<noteq> newId" for x
    using lastEntryId_ge [of x lb] by (simp add: newId_def)
  have new: "le_id newEntry = newId"
    by (simp add: newEntry_def entry_document_def)
  have only: "x \<in> set lb' \<Longrightarrow> le_id x = newId \<Longrightarrow> x = newEntry" for x
    using mem(1) old by auto
  have iff: "(newEntry \<in> set lb') = (\<exists>x \<in> set lb'. le_id x = newId)"
    using only new by auto
  have ranked: "entry_valid toNumber e \<and>
      1 \<le> pos \<and> pos \<le> 100 \<and> nat pos \<le> length lb' \<and> lb' ! nat (pos - 1) = newEntry \<and>
      (\<forall>j < nat (pos - 1). le_id (lb' ! j) \<noteq> newId)"
    if ex: "\<exists>x \<in> set lb'. le_id x = newId"
  proof -
    let ?i = "findIndex (\<lambda>entry. le_id entry = newId) lb'"
    from findIndex_found [of lb' "\<lambda>entry. le_id entry = newId", OF ex]
    have f: "0 \<le> ?i" "nat ?i < length lb'" "le_id (lb' ! nat ?i) = newId"
      "\<forall>j < nat ?i. le_id (lb' ! j) \<noteq> newId" by auto
    have "lb' ! nat ?i \<in> set lb'"
      using f(2) by simp
    then have "lb' ! nat ?i = newEntry"
      using only f(3) by blast
    moreover have p: "pos = ?i + 1"
      using psn(1) .
    moreover have "entry_valid toNumber e"
      using psn(2) p f(1) by auto
    ultimately show ?thesis
      using f mem(2) by auto
  qed
  have unranked: "pos = 0" if "\<not> (\<exists>x \<in> set lb'. le_id x = newId)"
    using that psn(1) findIndex_none [of "\<lambda>entry. le_id entry = newId" lb'] by simp
  have room: "1 \<le> pos" if "length lb < 100"
  proof -
    have "newEntry \<in> set lb'"
      using leaderboard_push_room [of stored toNumber e lb' pos] that push
      by (simp add: lb_def newEntry_def newId_def)
    with iff ranked show ?thesis by blast
  qed
  have full: "pos = 0"
    if "100 \<le> length lb \<and> (\<forall>x \<in> set lb. ne_prizeWon e \<le> le_prizeWon x)"
    using leaderboard_push_full [of stored e toNumber] that push by (simp add: lb_def)
  have handler: "db_leaderboard (fst (game_complete toNumber d u r now)) = Some lb' \<and>
      (\<exists>resp. snd (game_complete toNumber d u r now) = Inr resp \<and>
         rs_success resp \<and> rs_leaderboardPosition resp = Some pos)"
    if "cr_finalPrize r = Some p \<and> 0 < p \<and> db_leaderboard d = stored \<and>
        complete_entry u r p now = e" for d u r now p
    using that push by (simp add: game_complete_def Let_def)
  have legacy: "complete_game toNumber stored body now = (Some lb', Inr pos)"
    if "\<lparr> ne_userId = cg_userId body, ne_playerName = cg_playerName body,
          ne_prizeWon = cg_prizeWon body,
          ne_questionsAnswered = (case cg_questionsAnswered body of None \<Rightarrow> 0 | Some n \<Rightarrow> n),
          ne_totalQuestions = (case cg_totalQuestions body of None \<Rightarrow> 0 | Some n \<Rightarrow> n),
          ne_completionDate = now, ne_completionTime = cg_completionTime body \<rparr> = e" for body now
    using that push by (simp add: complete_game_def)
  show ?thesis
    using ranked unranked iff handler legacy room full
    unfolding newEntry_def newId_def lb_def by blast
qed

theorem leaderboard_position_witness:
  "leaderboard_push decimal_toNumber (Some [sample_entry 1 500]) (sample_new_entry 100)
     = Some ([sample_entry 1 500, sample_entry 2 100], 2) \<and>
   [sample_entry 1 500, sample_entry 2 100] ! nat (2 - 1) = sample_entry 2 100 \<and>
   complete_game decimal_toNumber (Some [sample_entry 1 500]) (sample_body 100 (Some (JNum 150))) 0
     = (Some [sample_entry 1 500, sample_entry 2 100], Inr 2)"
proof -
  have push: "leaderboard_push decimal_toNumber (Some [sample_entry 1 500]) (sample_new_entry 100)
     = Some ([sample_entry 1 500, sample_entry 2 100], 2)"
    by (simp add: leaderboard_push_def sample_entry_def sample_new_entry_def lastEntryId_def
        sortByPrize_def keepTop100_def Let_def entry_document_def entry_valid_def castNumber_def)
  have body: "\<lparr> ne_userId = cg_userId (sample_body 100 (Some (JNum 150))),
        ne_playerName = cg_playerName (sample_body 100 (Some (JNum 150))),
        ne_prizeWon = cg_prizeWon (sample_body 100 (Some (JNum 150))),
        ne_questionsAnswered =
          (case cg_questionsAnswered (sample_body 100 (Some (JNum 150))) of None \<Rightarrow> 0 | Some n \<Rightarrow> n),
        ne_totalQuestions =
          (case cg_totalQuestions (sample_body 100 (Some (JNum 150))) of None \<Rightarrow> 0 | Some n \<Rightarrow> n),
        ne_completionDate = 0,
        ne_completionTime = cg_completionTime (sample_body 100 (Some (JNum 150))) \<rparr>
      = sample_new_entry 100"
    by (simp add: sample_body_def sample_new_entry_def)
  have "complete_game decimal_toNumber (Some [sample_entry 1 500])
      (sample_body 100 (Some (JNum 150))) 0 = (Some [sample_entry 1 500, sample_entry 2 100], Inr 2)"
    using leaderboard_position_is_rank [OF push] body by blast
  with push show ?thesis
    by simp
qed


subsection \<open>Sorting and truncating the leaderboard\<close>

lemma map_sort_key: "map f (sort_key f xs) = sort (map f xs)"
  by (rule properties_for_sort [symmetric]) simp_all

lemma sort_snoc: "sort (xs @ [k]) = insort k (sort xs)"
  by (rule properties_for_sort) (simp_all add: sorted_insort)

lemma take_insort_take: "take n (insort k (take n xs)) = take n (insort k xs)"
proof (induction xs arbitrary: n)
  case Nil
  then show ?case by simp
next
  case (Cons x xs)
  show ?case
  proof (cases n)
    case 0
    then show ?thesis by simp
  next
    case (Suc m)
    have "take m (x # take m xs) = take m (x # xs)"
      by (cases m) simp_all
    with Suc Cons [of m] show ?thesis by simp
  qed
qed

lemma take_sort_step:
  "take n (sort (take n (sort ks) @ [k])) = take n (sort (ks @ [k]))"
proof -
  have "sort (take n (sort ks)) = take n (sort ks)"
    by (simp add: sorted_wrt_take sort_key_id_if_sorted)
  then show ?thesis
    by (simp add: sort_snoc take_insort_take)
qed

lemma sort_uminus: "sort (map uminus (ks :: int list)) = map uminus (rev (sort ks))"
proof (rule properties_for_sort)
  show "mset (map uminus (rev (sort ks))) = mset (map uminus ks)"
    by simp
  have "sorted_wrt (\<lambda>a b. b \<le> a) (rev (sort ks))"
    by (simp add: sorted_wrt_rev) 
  then show "sorted (map uminus (rev (sort ks)))"
    by (simp add: sorted_wrt_map)
qed

lemma top_of_105:
  assumes "distinct (ks :: int list)" "length ks = 105"
  shows "length (take 100 (rev (sort ks))) = 100"
    and "set (take 5 (sort ks)) \<inter> set (take 100 (rev (sort ks))) = {}"
proof -
  show "length (take 100 (rev (sort ks))) = 100"
    using assms by simp
  have "take 100 (rev (sort ks)) = rev (drop 5 (sort ks))"
    using assms by (simp add: take_rev)
  moreover have "set (take 5 (sort ks)) \<inter> set (drop 5 (sort ks)) = {}"
    using assms by (simp add: set_take_disj_set_drop_if_distinct)
  ultimately show "set (take 5 (sort ks)) \<inter> set (take 100 (rev (sort ks))) = {}"
    by simp
qed

lemma sorted_desc_sort_key:
  "sorted_wrt (\<lambda>a b. f b \<le> (f a :: int)) (sort_key (\<lambda>e. - f e) xs)"
proof -
  have "sorted (map (\<lambda>e. - f e) (sort_key (\<lambda>e. - f e) xs))"
    by (rule sorted_sort_key)
  then show ?thesis
    by (simp add: sorted_wrt_map)
qed

lemma sort_key_desc_id:
  "sorted_wrt (\<lambda>a b. f b \<le> (f a :: int)) xs \<Longrightarrow> sort_key (\<lambda>e. - f e) xs = xs"
  by (rule sort_key_id_if_sorted) (simp add: sorted_wrt_map)

lemma sorted_wrt_keepTop100: "sorted_wrt R xs \<Longrightarrow> sorted_wrt R (keepTop100 xs)"
  by (simp add: keepTop100_def sorted_wrt_take)

lemma keys_push_sort_truncate:
  "map f (keepTop100 (sort_key f (lb @ [x]))) = take 100 (sort (map f lb @ [f x]))"
proof -
  have "map f (keepTop100 (sort_key f (lb @ [x]))) = take 100 (map f (sort_key f (lb @ [x])))"
    by (simp only: keepTop100_take take_map)
  also have "\<dots> = take 100 (sort (map f (lb @ [x])))"
    by (simp only: map_sort_key)
  finally show ?thesis by simp
qed


lemma leaderboard_push_keys:
  assumes "leaderboard_push toNumber st e = Some (lb', pos)"
  shows "map (\<lambda>e. - le_prizeWon e) lb'
     = take 100 (sort (map (\<lambda>e. - le_prizeWon e) (case st of None \<Rightarrow> [] | Some l \<Rightarrow> l)
         @ [- ne_prizeWon e]))"
  unfolding leaderboard_push_Some(1) [OF assms] sortByPrize_def
  by (simp only: keys_push_sort_truncate) (simp add: entry_document_def)

lemma leaderboard_push_fold_keys:
  assumes "list_all (entry_valid toNumber) es"
  shows "map (\<lambda>e. - le_prizeWon e)
       (case fold (\<lambda>e st. case leaderboard_push toNumber st e of
                     None \<Rightarrow> st | Some (lb, pos) \<Rightarrow> Some lb) es None of
          None \<Rightarrow> [] | Some l \<Rightarrow> l)
     = take 100 (sort (map (\<lambda>e. - ne_prizeWon e) es)) \<and>
     (es \<noteq> [] \<longrightarrow>
        fold (\<lambda>e st. case leaderboard_push toNumber st e of
                None \<Rightarrow> st | Some (lb, pos) \<Rightarrow> Some lb) es None \<noteq> None)"
  using assms
proof (induction es rule: rev_induct)
  case Nil
  then show ?case by simp
next
  case (snoc e es)
  let ?st = "fold (\<lambda>e st. case leaderboard_push toNumber st e of
                     None \<Rightarrow> st | Some (lb, pos) \<Rightarrow> Some lb) es None"
  from snoc.prems have "entry_valid toNumber e" by simp
  then obtain lb' pos where push: "leaderboard_push toNumber ?st e = Some (lb', pos)"
    using leaderboard_push_valid by blast
  from snoc have ih: "map (\<lambda>e. - le_prizeWon e) (case ?st of None \<Rightarrow> [] | Some l \<Rightarrow> l)
      = take 100 (sort (map (\<lambda>e. - ne_prizeWon e) es))" by simp
  have "map (\<lambda>e. - le_prizeWon e) lb'
      = take 100 (sort (take 100 (sort (map (\<lambda>e. - ne_prizeWon e) es)) @ [- ne_prizeWon e]))"
    using leaderboard_push_keys [OF push] by (simp only: ih)
  then show ?case
    by (simp add: push take_sort_step)
qed

lemma desc_keys:
  assumes "map uminus ks' = take 100 (sort (map uminus (ks :: int list)))"
  shows "ks' = take 100 (rev (sort ks))"
proof -
  have "ks' = map uminus (map uminus ks')"
    by (simp add: comp_def)
  also have "\<dots> = map uminus (take 100 (map uminus (rev (sort ks))))"
    by (simp only: assms sort_uminus)
  also have "\<dots> = map uminus (map uminus (take 100 (rev (sort ks))))"
    by (simp only: take_map)
  also have "\<dots> = take 100 (rev (sort ks))"
    by (simp add: comp_def)
  finally show ?thesis .
qed

lemma top100_of_105:
  assumes keys: "map uminus ks' = take 100 (sort (map uminus (ks :: int list)))"
    and "distinct ks" and "length ks = 105"
  shows "length ks' = 100 \<and> ks' = take 100 (rev (sort ks)) \<and>
         set (take 5 (sort ks)) \<inter> set ks' = {}"
  unfolding desc_keys [OF keys] using top_of_105 [OF assms(2,3)] by simp

lemma post_stats_leaderboard_eq:
  "post_stats_leaderboard stored username g now = updateLeaderboard stored username g now"
  by (simp add: post_stats_leaderboard_def updateLeaderboard_def leaderboardEntry_def Let_def)

lemma updateLeaderboard_new_user:
  assumes "username \<notin> se_username ` set (case st of None \<Rightarrow> [] | Some l \<Rightarrow> l)"
  shows "updateLeaderboard st username g now
     = keepTop100 (sortByScore ((case st of None \<Rightarrow> [] | Some l \<Rightarrow> l)
         @ [leaderboardEntry username g now]))"
proof -
  have "findIndex (\<lambda>entry. se_username entry = username)
      (case st of None \<Rightarrow> [] | Some l \<Rightarrow> l) = - 1"
    using assms by (auto simp: findIndex_none)
  then show ?thesis
    by (simp add: updateLeaderboard_def Let_def)
qed

lemma updateLeaderboard_set:
  "set (updateLeaderboard st username g now)
     \<subseteq> insert (leaderboardEntry username g now) (set (case st of None \<Rightarrow> [] | Some l \<Rightarrow> l))"
proof -
  define lb where "lb = (case st of None \<Rightarrow> [] | Some l \<Rightarrow> l)"
  define lb1 where "lb1 =
     (if findIndex (\<lambda>entry. se_username entry = username) lb \<ge> 0 then
        (if se_score (leaderboardEntry username g now)
              > se_score (lb ! nat (findIndex (\<lambda>entry. se_username entry = username) lb))
         then lb[nat (findIndex (\<lambda>entry. se_username entry = username) lb)
                   := leaderboardEntry username g now] else lb)
      else lb @ [leaderboardEntry username g now])"
  have "set lb1 \<subseteq> insert (leaderboardEntry username g now) (set lb)"
    using set_update_subset_insert [of lb _ "leaderboardEntry username g now"]
    by (auto simp: lb1_def)
  moreover have "updateLeaderboard st username g now = keepTop100 (sortByScore lb1)"
    by (simp add: updateLeaderboard_def Let_def lb1_def lb_def)
  moreover have "set (keepTop100 (sortByScore lb1)) \<subseteq> set lb1"
    using set_keepTop100 [of "sortByScore lb1"] by (simp add: sortByScore_def)
  ultimately show ?thesis
    unfolding lb_def by auto
qed

lemma updateLeaderboard_usernames:
  "se_username ` set (updateLeaderboard st username g now)
     \<subseteq> insert username (se_username ` set (case st of None \<Rightarrow> [] | Some l \<Rightarrow> l))"
proof -
  have "se_username (leaderboardEntry username g now) = username"
    by (simp add: leaderboardEntry_def)
  then show ?thesis
    using updateLeaderboard_set [of st username g now] by force
qed

lemma updateLeaderboard_fold_keys:
  assumes "distinct (map fst us)"
  shows "map (\<lambda>e. - se_score e)
       (case fold (\<lambda>x st. Some (updateLeaderboard st (fst x) (snd x) now)) us None of
          None \<Rightarrow> [] | Some l \<Rightarrow> l)
     = take 100 (sort (map (\<lambda>x. - gs_score (snd x)) us)) \<and>
     se_username ` set (case fold (\<lambda>x st. Some (updateLeaderboard st (fst x) (snd x) now)) us None of
          None \<Rightarrow> [] | Some l \<Rightarrow> l) \<subseteq> fst ` set us"
  using assms
proof (induction us rule: rev_induct)
  case Nil
  then show ?case by simp
next
  case (snoc x us)
  let ?st = "fold (\<lambda>x st. Some (updateLeaderboard st (fst x) (snd x) now)) us None"
  let ?lb = "case ?st of None \<Rightarrow> [] | Some l \<Rightarrow> l"
  from snoc have ih: "map (\<lambda>e. - se_score e) ?lb = take 100 (sort (map (\<lambda>x. - gs_score (snd x)) us))"
    and names: "se_username ` set ?lb \<subseteq> fst ` set us" by auto
  from snoc.prems have "fst x \<notin> fst ` set us" by auto
  with names have fresh: "fst x \<notin> se_username ` set ?lb" by blast
  have "map (\<lambda>e. - se_score e) (updateLeaderboard ?st (fst x) (snd x) now)
      = take 100 (sort (map (\<lambda>e. - se_score e) ?lb
          @ [- se_score (leaderboardEntry (fst x) (snd x) now)]))"
    unfolding updateLeaderboard_new_user [OF fresh] sortByScore_def
    by (rule keys_push_sort_truncate)
  also have "\<dots> = take 100 (sort (map (\<lambda>x. - gs_score (snd x)) us @ [- gs_score (snd x)]))"
    by (simp only: ih take_sort_step) (simp add: leaderboardEntry_def)
  finally have keys: "map (\<lambda>e. - se_score e) (updateLeaderboard ?st (fst x) (snd x) now)
      = take 100 (sort (map (\<lambda>x. - gs_score (snd x)) us @ [- gs_score (snd x)]))" .
  have "se_username ` set (updateLeaderboard ?st (fst x) (snd x) now)
      \<subseteq> insert (fst x) (fst ` set us)"
    using updateLeaderboard_usernames [of ?st "fst x" "snd x" now] names by blast
  with keys show ?case by simp
qed


lemma leaderboard_push_sorted:
  assumes "leaderboard_push toNumber stored e = Some (lb', pos)"
  shows "sorted_wrt (\<lambda>a b. le_prizeWon b \<le> le_prizeWon a) lb' \<and> length lb' \<le> 100"
  unfolding leaderboard_push_Some(1) [OF assms]
  by (simp add: sortByPrize_def sorted_wrt_keepTop100 sorted_desc_sort_key length_keepTop100)

lemma updateLeaderboard_sorted:
  "sorted_wrt (\<lambda>a b. se_score b \<le> se_score a) (updateLeaderboard stored username g now) \<and>
   length (updateLeaderboard stored username g now) \<le> 100"
  by (simp add: updateLeaderboard_def Let_def sortByScore_def sorted_wrt_keepTop100
      sorted_desc_sort_key length_keepTop100)

lemma fold_Some_nonempty:
  "es \<noteq> [] \<Longrightarrow> \<exists>lb. fold (\<lambda>e st. Some (h st e)) es None = Some lb"
  by (cases es rule: rev_cases) simp_all

text \<open>
  Claim C4. Whatever was stored before, a list that the leaderboard step writes is
  sorted descending by its ranking field and has at most 100 entries: for the prize
  leaderboard of \<^verbatim>\<open>/api/game/complete\<close> and \<^verbatim>\<open>/api/complete-game\<close>, where
  a request with a positive prize either stores such a list or, when the save rejects
  the entry, leaves the stored document as it was, and for the score leaderboard of
  \<^verbatim>\<open>/api/stats\<close>. Starting from no document, 105 insertions with pairwise
  distinct ranking values (entries that the save accepts; for the score leaderboard
  distinct usernames, so that each one inserts) leave exactly 100 entries: the 100
  highest values in descending order, none of the 5 lowest.
\<close>

theorem leaderboard_sorted_top100:
  "(leaderboard_push toNumber stored e = Some (lb', pos) \<longrightarrow>
      sorted_wrt (\<lambda>a b. le_prizeWon b \<le> le_prizeWon a) lb' \<and> length lb' \<le> 100) \<and>
   (entry_valid toNumber e \<longrightarrow> leaderboard_push toNumber stored e \<noteq> None) \<and>
   (cr_finalPrize r = Some p \<and> 0 < p \<longrightarrow>
      db_leaderboard (fst (game_complete toNumber d u r now))
        = (case leaderboard_push toNumber (db_leaderboard d) (complete_entry u r p now) of
             None \<Rightarrow> db_leaderboard d | Some (lb, pos) \<Rightarrow> Some lb) \<and>
      (db_leaderboard (fst (game_complete toNumber d u r now)) = db_leaderboard d \<and>
         snd (game_complete toNumber d u r now) = Inl ServerError \<or>
       (\<exists>lb. db_leaderboard (fst (game_complete toNumber d u r now)) = Some lb \<and>
          sorted_wrt (\<lambda>a b. le_prizeWon b \<le> le_prizeWon a) lb \<and> length lb \<le> 100))) \<and>
   sorted_wrt (\<lambda>a b. se_score b \<le> se_score a) (updateLeaderboard stored' username g now) \<and>
   length (updateLeaderboard stored' username g now) \<le> 100 \<and>
   post_stats_leaderboard stored' username g now = updateLeaderboard stored' username g now \<and>
   (list_all (entry_valid toNumber) es \<and> distinct (map ne_prizeWon es) \<and> length es = 105 \<longrightarrow>
      (\<exists>lb. fold (\<lambda>e st. case leaderboard_push toNumber st e of
                      None \<Rightarrow> st | Some (lb, pos) \<Rightarrow> Some lb) es None = Some lb \<and>
         length lb = 100 \<and>
         map le_prizeWon lb = take 100 (rev (sort (map ne_prizeWon es))) \<and>
         set (take 5 (sort (map ne_prizeWon es))) \<inter> le_prizeWon ` set lb = {})) \<and>
   (distinct (map fst us) \<and> distinct (map (\<lambda>x. gs_score (snd x)) us) \<and> length us = 105 \<longrightarrow>
      (\<exists>lb. fold (\<lambda>x st. Some (updateLeaderboard st (fst x) (snd x) now)) us None = Some lb \<and>
         length lb = 100 \<and>
         map se_score lb = take 100 (rev (sort (map (\<lambda>x. gs_score (snd x)) us))) \<and>
         set (take 5 (sort (map (\<lambda>x. gs_score (snd x)) us))) \<inter> se_score ` set lb = {}))"
proof -
  have handler: "db_leaderboard (fst (game_complete toNumber d u r now))
        = (case leaderboard_push toNumber (db_leaderboard d) (complete_entry u r p now) of
             None \<Rightarrow> db_leaderboard d | Some (lb, pos) \<Rightarrow> Some lb) \<and>
      (db_leaderboard (fst (game_complete toNumber d u r now)) = db_leaderboard d \<and>
         snd (game_complete toNumber d u r now) = Inl ServerError \<or>
       (\<exists>lb. db_leaderboard (fst (game_complete toNumber d u r now)) = Some lb \<and>
          sorted_wrt (\<lambda>a b. le_prizeWon b \<le> le_prizeWon a) lb \<and> length lb \<le> 100))"
    if h: "cr_finalPrize r = Some p \<and> 0 < p"
  proof (cases "leaderboard_push toNumber (db_leaderboard d) (complete_entry u r p now)")
    case None
    with h show ?thesis
      by (simp add: game_complete_def Let_def)
  next
    case (Some a)
    obtain lb n where a: "a = (lb, n)" by (cases a)
    from h Some a have "db_leaderboard (fst (game_complete toNumber d u r now)) = Some lb"
      by (simp add: game_complete_def Let_def)
    moreover have "sorted_wrt (\<lambda>a b. le_prizeWon b \<le> le_prizeWon a) lb \<and> length lb \<le> 100"
      using leaderboard_push_sorted Some a by blast
    ultimately show ?thesis
      using Some a by simp
  qed
  have prize: "\<exists>lb. fold (\<lambda>e st. case leaderboard_push toNumber st e of
                      None \<Rightarrow> st | Some (lb, pos) \<Rightarrow> Some lb) es None = Some lb \<and>
         length lb = 100 \<and>
         map le_prizeWon lb = take 100 (rev (sort (map ne_prizeWon es))) \<and>
         set (take 5 (sort (map ne_prizeWon es))) \<inter> le_prizeWon ` set lb = {}"
    if h: "list_all (entry_valid toNumber) es \<and> distinct (map ne_prizeWon es) \<and> length es = 105"
  proof -
    from h have "es \<noteq> []" and v: "list_all (entry_valid toNumber) es" by auto
    then obtain lb where lb: "fold (\<lambda>e st. case leaderboard_push toNumber st e of
                      None \<Rightarrow> st | Some (lb, pos) \<Rightarrow> Some lb) es None = Some lb"
      using leaderboard_push_fold_keys [OF v] by auto
    have "map (\<lambda>e. - le_prizeWon e) lb = take 100 (sort (map (\<lambda>e. - ne_prizeWon e) es))"
      using leaderboard_push_fold_keys [OF v] lb by simp
    then have "map uminus (map le_prizeWon lb) = take 100 (sort (map uminus (map ne_prizeWon es)))"
      by (simp add: comp_def)
    moreover from h have "distinct (map ne_prizeWon es)" and "length (map ne_prizeWon es) = 105"
      by simp_all
    ultimately have t: "length (map le_prizeWon lb) = 100 \<and>
        map le_prizeWon lb = take 100 (rev (sort (map ne_prizeWon es))) \<and>
        set (take 5 (sort (map ne_prizeWon es))) \<inter> set (map le_prizeWon lb) = {}"
      by (rule top100_of_105)
    have "length lb = 100"
      using t by simp
    moreover note t [THEN conjunct2, THEN conjunct1]
      t [THEN conjunct2, THEN conjunct2, unfolded set_map]
    ultimately show ?thesis
      using lb by blast
  qed
  have score: "\<exists>lb. fold (\<lambda>x st. Some (updateLeaderboard st (fst x) (snd x) now)) us None = Some lb \<and>
         length lb = 100 \<and>
         map se_score lb = take 100 (rev (sort (map (\<lambda>x. gs_score (snd x)) us))) \<and>
         set (take 5 (sort (map (\<lambda>x. gs_score (snd x)) us))) \<inter> se_score ` set lb = {}"
    if h: "distinct (map fst us) \<and> distinct (map (\<lambda>x. gs_score (snd x)) us) \<and> length us = 105"
  proof -
    from h have "us \<noteq> []" by auto
    then obtain lb where lb:
      "fold (\<lambda>x st. Some (updateLeaderboard st (fst x) (snd x) now)) us None = Some lb"
      using fold_Some_nonempty [of us "\<lambda>st x. updateLeaderboard st (fst x) (snd x) now"] by blast
    from h have d: "distinct (map fst us)" by simp
    have keys: "map (\<lambda>e. - se_score e) lb = take 100 (sort (map (\<lambda>x. - gs_score (snd x)) us))"
      using updateLeaderboard_fold_keys [OF d, of now] lb by simp
    then have "map uminus (map se_score lb)
        = take 100 (sort (map uminus (map (\<lambda>x. gs_score (snd x)) us)))"
      by (simp add: comp_def)
    moreover from h have "distinct (map (\<lambda>x. gs_score (snd x)) us)"
      and "length (map (\<lambda>x. gs_score (snd x)) us) = 105"
      by simp_all
    ultimately have t: "length (map se_score lb) = 100 \<and>
        map se_score lb = take 100 (rev (sort (map (\<lambda>x. gs_score (snd x)) us))) \<and>
        set (take 5 (sort (map (\<lambda>x. gs_score (snd x)) us))) \<inter> set (map se_score lb) = {}"
      by (rule top100_of_105)
    have "length lb = 100"
      using t by simp
    moreover note t [THEN conjunct2, THEN conjunct1]
      t [THEN conjunct2, THEN conjunct2, unfolded set_map]
    ultimately show ?thesis
      using lb by blast
  qed
  have valid: "leaderboard_push toNumber stored e \<noteq> None" if "entry_valid toNumber e"
    using leaderboard_push_valid [OF that, of stored] by auto
  show ?thesis
    using leaderboard_push_sorted [of toNumber stored e lb' pos] valid
      updateLeaderboard_sorted [of stored' username g now]
      post_stats_leaderboard_eq [of stored' username g now] handler prize score by blast
qed

theorem leaderboard_sorted_top100_witness:
  "(list_all (entry_valid decimal_toNumber) sample_entries \<and>
    distinct (map ne_prizeWon sample_entries) \<and> length sample_entries = 105) \<and>
   (\<exists>lb. fold (\<lambda>e st. case leaderboard_push decimal_toNumber st e of
                   None \<Rightarrow> st | Some (lb, pos) \<Rightarrow> Some lb) sample_entries None = Some lb \<and>
      length lb = 100 \<and>
      map le_prizeWon lb = take 100 (rev (sort (map ne_prizeWon sample_entries))) \<and>
      set (take 5 (sort (map ne_prizeWon sample_entries))) \<inter> le_prizeWon ` set lb = {}) \<and>
   (distinct (map fst sample_scores) \<and> distinct (map (\<lambda>x. gs_score (snd x)) sample_scores) \<and>
      length sample_scores = 105) \<and>
   (\<exists>lb. fold (\<lambda>x st. Some (updateLeaderboard st (fst x) (snd x) 0)) sample_scores None = Some lb \<and>
      length lb = 100 \<and>
      map se_score lb = take 100 (rev (sort (map (\<lambda>x. gs_score (snd x)) sample_scores))) \<and>
      set (take 5 (sort (map (\<lambda>x. gs_score (snd x)) sample_scores))) \<inter> se_score ` set lb = {}) \<and>
   leaderboard_push decimal_toNumber None (sample_new_entry 100) = Some ([sample_entry 1 100], 1) \<and>
   sorted_wrt (\<lambda>a b. le_prizeWon b \<le> le_prizeWon a) [sample_entry 1 100] \<and>
   cr_finalPrize (completion 10 8 (Some 100) (Some (JNum 150))) = Some 100 \<and>
   db_leaderboard (fst (game_complete decimal_toNumber empty_db alice
       (completion 10 8 (Some 100) (Some (JNum 150))) 0))
     = (case leaderboard_push decimal_toNumber (db_leaderboard empty_db)
          (complete_entry alice (completion 10 8 (Some 100) (Some (JNum 150))) 100 0) of
          None \<Rightarrow> db_leaderboard empty_db | Some (lb, pos) \<Rightarrow> Some lb)"
proof -
  have "map ne_prizeWon sample_entries = [1..105]"
    by (simp add: sample_entries_def sample_new_entry_def comp_def)
  then have "distinct (map ne_prizeWon sample_entries) \<and> length sample_entries = 105"
    using length_map [of ne_prizeWon sample_entries] by (simp del: length_map)
  moreover have "list_all (entry_valid decimal_toNumber) sample_entries"
    by (simp add: sample_entries_def list_all_iff entry_valid_def sample_new_entry_def
        castNumber_def)
  ultimately have h1: "list_all (entry_valid decimal_toNumber) sample_entries \<and>
      distinct (map ne_prizeWon sample_entries) \<and> length sample_entries = 105"
    by simp
  have "inj_on (\<lambda>n. replicate (nat n) CHR ''u'') (set [1..105])"
    by (auto simp: inj_on_def dest!: arg_cong [where f = length])
  then have names: "distinct (map fst sample_scores)"
    by (simp add: sample_scores_def comp_def distinct_map)
  have "map (\<lambda>x. gs_score (snd x)) sample_scores = [1..105]"
    by (simp add: sample_scores_def score_of_def comp_def)
  then have "distinct (map (\<lambda>x. gs_score (snd x)) sample_scores)"
    by simp
  moreover have "length sample_scores = 105"
    by (simp add: sample_scores_def)
  ultimately have h2: "distinct (map fst sample_scores) \<and>
      distinct (map (\<lambda>x. gs_score (snd x)) sample_scores) \<and> length sample_scores = 105"
    using names by simp
  have push: "leaderboard_push decimal_toNumber None (sample_new_entry 100)
      = Some ([sample_entry 1 100], 1)"
    by (simp add: leaderboard_push_def sample_entry_def sample_new_entry_def lastEntryId_def
        sortByPrize_def keepTop100_def Let_def entry_document_def entry_valid_def castNumber_def)
  have prize: "cr_finalPrize (completion 10 8 (Some 100) (Some (JNum 150))) = Some 100 \<and>
      (0::int) < 100"
    by (simp add: completion_def)
  from leaderboard_sorted_top100 [where es = sample_entries and us = sample_scores and now = 0
      and toNumber = decimal_toNumber and stored = None and e = "sample_new_entry 100"
      and lb' = "[sample_entry 1 100]" and pos = 1
      and r = "completion 10 8 (Some 100) (Some (JNum 150))" and p = 100
      and d = empty_db and u = alice]
    h1 h2 push prize show ?thesis
    by blast
qed


subsection \<open>Replacing an entry\<close>

text \<open>
  Claim C2 as stated fails for the prize leaderboard: \<^verbatim>\<open>/api/game/complete\<close> never
  looks an entry up by user. Two completions of user \<open>a\<close> with prizes 100 and then 50
  (completion time 150, a number, so that both saves are accepted) store two entries for
  \<open>a\<close>, so the inferior replay changes the stored list.
\<close>

theorem leaderboard_replay_counterexample:
  "map_option (map (\<lambda>e. (le_id e, le_userId e, le_prizeWon e)))
     (db_leaderboard (fst (game_complete decimal_toNumber
        (fst (game_complete decimal_toNumber empty_db alice
                (completion 10 8 (Some 100) (Some (JNum 150))) 0))
        alice (completion 10 8 (Some 50) (Some (JNum 150))) 1)))
     = Some [(1, ''a'', 100), (2, ''a'', 50)] \<and>
   db_leaderboard (fst (game_complete decimal_toNumber
        (fst (game_complete decimal_toNumber empty_db alice
                (completion 10 8 (Some 100) (Some (JNum 150))) 0))
        alice (completion 10 8 (Some 50) (Some (JNum 150))) 1))
     \<noteq> db_leaderboard (fst (game_complete decimal_toNumber empty_db alice
                (completion 10 8 (Some 100) (Some (JNum 150))) 0)) \<and>
   (\<exists>resp. snd (game_complete decimal_toNumber
        (fst (game_complete decimal_toNumber empty_db alice
                (completion 10 8 (Some 100) (Some (JNum 150))) 0))
        alice (completion 10 8 (Some 50) (Some (JNum 150))) 1) = Inr resp \<and>
      rs_leaderboardPosition resp = Some 2)"
proof -
  have first: "game_complete decimal_toNumber empty_db alice
      (completion 10 8 (Some 100) (Some (JNum 150))) 0
    = (\<lparr> db_stats = [complete_stats_create 1 alice
                       (completion 10 8 (Some 100) (Some (JNum 150)))],
         db_leaderboard = Some [entry_document decimal_toNumber 1
           (complete_entry alice (completion 10 8 (Some 100) (Some (JNum 150))) 100 0)] \<rparr>,
       Inr \<lparr> rs_success = True, rs_message = ''Game results saved successfully'',
             rs_leaderboardPosition = Some 1, rs_gamesPlayed = 1, rs_totalPrize = 100,
             rs_accuracy = 80 \<rparr>)"
    by (simp add: game_complete_def Let_def empty_db_def findStats_def newStatsId_def
        leaderboard_push_def lastEntryId_def sortByPrize_def keepTop100_def
        entry_document_def entry_valid_def complete_entry_def completion_def alice_def
        castNumber_def complete_stats_create_def js_or_def js_truthy_def
        js_round_percent_examples)
  show ?thesis
    unfolding first
    by (simp add: game_complete_def Let_def findStats_def alice_def
        complete_stats_create_def complete_stats_update_def completion_def
        leaderboard_push_def lastEntryId_def sortByPrize_def keepTop100_def
        entry_document_def entry_valid_def complete_entry_def castNumber_def js_or_def
        js_truthy_def js_round_percent_examples)
qed

lemma updateLeaderboard_existing:
  assumes "0 \<le> findIndex (\<lambda>entry. se_username entry = username) lb"
  shows "updateLeaderboard (Some lb) username g now =
     keepTop100 (sortByScore
       (if se_score (lb ! nat (findIndex (\<lambda>entry. se_username entry = username) lb)) < gs_score g
        then lb[nat (findIndex (\<lambda>entry. se_username entry = username) lb)
                  := leaderboardEntry username g now]
        else lb))"
  using assms by (simp add: updateLeaderboard_def Let_def leaderboardEntry_def)

lemma keepTop100_sortByScore_id:
  assumes "sorted_wrt (\<lambda>a b. se_score b \<le> se_score a) lb" and "length lb \<le> 100"
  shows "keepTop100 (sortByScore lb) = lb"
  using assms by (simp add: sortByScore_def sort_key_desc_id keepTop100_def)

lemma leaderboard_push_mset:
  assumes "length (case stored of None \<Rightarrow> [] | Some l \<Rightarrow> l) < 100"
    and "leaderboard_push toNumber stored e = Some (lb', pos)"
  shows "mset lb'
     = mset (case stored of None \<Rightarrow> [] | Some l \<Rightarrow> l)
       + {# entry_document toNumber
              (lastEntryId (case stored of None \<Rightarrow> [] | Some l \<Rightarrow> l) + 1) e #}"
  unfolding leaderboard_push_Some(1) [OF assms(2)]
  using assms(1) by (simp add: keepTop100_def sortByPrize_def)

text \<open>
  Claim C2, amended. The score leaderboard (\<^verbatim>\<open>updateLeaderboard\<close> and the same steps
  in \<^verbatim>\<open>POST /api/stats\<close>) matches by username: when the user has an entry, a
  score that is not strictly greater leaves the entries as they are (the list is only
  sorted and truncated again, which changes nothing on a list that is already sorted
  and within 100 entries), a strictly greater score replaces the entry in place; a new
  username is pushed. The prize leaderboard (\<^verbatim>\<open>/api/game/complete\<close>,
  \<^verbatim>\<open>/api/complete-game\<close>) does not match by key: below 100 entries every submission
  whose entry the save accepts (user id and player name not empty, a completion time
  that casts to a number) is stored, and every stored submission adds one entry under a
  fresh id and keeps all the stored ones.
\<close>

theorem leaderboard_replace_only_if_greater:
  "(let i = findIndex (\<lambda>entry. se_username entry = username) lb in
      (0 \<le> i \<longrightarrow>
         se_username (lb ! nat i) = username \<and>
         (gs_score g \<le> se_score (lb ! nat i) \<longrightarrow>
            updateLeaderboard (Some lb) username g now = keepTop100 (sortByScore lb) \<and>
            (sorted_wrt (\<lambda>a b. se_score b \<le> se_score a) lb \<and> length lb \<le> 100 \<longrightarrow>
               updateLeaderboard (Some lb) username g now = lb)) \<and>
         (se_score (lb ! nat i) < gs_score g \<longrightarrow>
            updateLeaderboard (Some lb) username g now =
              keepTop100 (sortByScore (lb[nat i := leaderboardEntry username g now])))) \<and>
      (i < 0 \<longrightarrow>
         username \<notin> se_username ` set lb \<and>
         updateLeaderboard (Some lb) username g now =
           keepTop100 (sortByScore (lb @ [leaderboardEntry username g now])))) \<and>
   post_stats_leaderboard (Some lb) username g now = updateLeaderboard (Some lb) username g now \<and>
   (entry_valid toNumber e \<longrightarrow> leaderboard_push toNumber stored e \<noteq> None) \<and>
   (length (case stored of None \<Rightarrow> [] | Some l \<Rightarrow> l) < 100 \<and>
    leaderboard_push toNumber stored e = Some (lb', pos) \<longrightarrow>
      mset lb'
        = mset (case stored of None \<Rightarrow> [] | Some l \<Rightarrow> l)
          + {# entry_document toNumber
                 (lastEntryId (case stored of None \<Rightarrow> [] | Some l \<Rightarrow> l) + 1) e #})"
proof -
  let ?i = "findIndex (\<lambda>entry. se_username entry = username) lb"
  have found: "se_username (lb ! nat ?i) = username" if "0 \<le> ?i"
  proof -
    from that have "\<exists>x \<in> set lb. se_username x = username"
      using findIndex_neg_iff [of "\<lambda>entry. se_username entry = username" lb] by auto
    from findIndex_found [of lb "\<lambda>entry. se_username entry = username", OF this]
    show ?thesis by simp
  qed
  have keep: "updateLeaderboard (Some lb) username g now = keepTop100 (sortByScore lb)"
    if "0 \<le> ?i" "gs_score g \<le> se_score (lb ! nat ?i)"
    using that updateLeaderboard_existing [of username lb g now] by simp
  have noop: "updateLeaderboard (Some lb) username g now = lb"
    if "0 \<le> ?i" "gs_score g \<le> se_score (lb ! nat ?i)"
      "sorted_wrt (\<lambda>a b. se_score b \<le> se_score a) lb \<and> length lb \<le> 100"
    using keep [OF that(1,2)] keepTop100_sortByScore_id [of lb] that(3) by simp
  have replace: "updateLeaderboard (Some lb) username g now =
      keepTop100 (sortByScore (lb[nat ?i := leaderboardEntry username g now]))"
    if "0 \<le> ?i" "se_score (lb ! nat ?i) < gs_score g"
    using that updateLeaderboard_existing [of username lb g now] by simp
  have absent: "username \<notin> se_username ` set lb" if "?i < 0"
    using that findIndex_neg_iff [of "\<lambda>entry. se_username entry = username" lb] by auto
  have push: "updateLeaderboard (Some lb) username g now =
      keepTop100 (sortByScore (lb @ [leaderboardEntry username g now]))" if "?i < 0"
    using updateLeaderboard_new_user [of username "Some lb" g now] absent [OF that] by simp
  have valid: "leaderboard_push toNumber stored e \<noteq> None" if "entry_valid toNumber e"
    using leaderboard_push_valid [OF that, of stored] by auto
  show ?thesis
    unfolding Let_def
    using found keep noop replace absent push valid
      leaderboard_push_mset [of stored toNumber e lb' pos]
      post_stats_leaderboard_eq [of "Some lb" username g now]
    by blast
qed

theorem leaderboard_replace_witness:
  "updateLeaderboard None ''a'' (score_of 100) 0 = [leaderboardEntry ''a'' (score_of 100) 0] \<and>
   findIndex (\<lambda>entry. se_username entry = ''a'') [leaderboardEntry ''a'' (score_of 100) 0] = 0 \<and>
   updateLeaderboard (Some [leaderboardEntry ''a'' (score_of 100) 0]) ''a'' (score_of 50) 1
     = [leaderboardEntry ''a'' (score_of 100) 0] \<and>
   updateLeaderboard (Some [leaderboardEntry ''a'' (score_of 100) 0]) ''a'' (score_of 150) 1
     = [leaderboardEntry ''a'' (score_of 150) 1] \<and>
   leaderboard_push decimal_toNumber (Some [sample_entry 1 100]) (sample_new_entry 50)
     = Some ([sample_entry 1 100, sample_entry 2 50], 2) \<and>
   mset [sample_entry 1 100, sample_entry 2 50] = {# sample_entry 1 100, sample_entry 2 50 #}"
proof -
  let ?lb = "[leaderboardEntry ''a'' (score_of 100) 0]"
  have first: "updateLeaderboard None ''a'' (score_of 100) 0 = ?lb"
    by (simp add: updateLeaderboard_def Let_def sortByScore_def keepTop100_def)
  have idx: "findIndex (\<lambda>entry. se_username entry = ''a'') ?lb = 0"
    by (simp add: leaderboardEntry_def)
  have inv: "sorted_wrt (\<lambda>a b. se_score b \<le> se_score a) ?lb \<and> length ?lb \<le> 100"
    by simp
  have low: "gs_score (score_of 50) \<le> se_score (?lb ! nat 0)"
    and high: "se_score (?lb ! nat 0) < gs_score (score_of 150)"
    by (simp_all add: leaderboardEntry_def score_of_def)
  have small: "length (case Some [sample_entry 1 100] of None \<Rightarrow> [] | Some l \<Rightarrow> l) < 100"
    by simp
  have stored: "leaderboard_push decimal_toNumber (Some [sample_entry 1 100]) (sample_new_entry 50)
      = Some ([sample_entry 1 100, sample_entry 2 50], 2)"
    by (simp add: leaderboard_push_def sample_entry_def sample_new_entry_def lastEntryId_def
        sortByPrize_def keepTop100_def Let_def entry_document_def entry_valid_def castNumber_def)
  have "updateLeaderboard (Some ?lb) ''a'' (score_of 50) 1 = ?lb"
    using leaderboard_replace_only_if_greater [of "''a''" ?lb "score_of 50" 1] idx inv low
    by (simp add: Let_def sortByScore_def keepTop100_def)
  moreover have "updateLeaderboard (Some ?lb) ''a'' (score_of 150) 1
      = keepTop100 (sortByScore (?lb[nat 0 := leaderboardEntry ''a'' (score_of 150) 1]))"
    using leaderboard_replace_only_if_greater [of "''a''" ?lb "score_of 150" 1] idx high
    by (simp add: Let_def)
  moreover have "mset [sample_entry 1 100, sample_entry 2 50]
      = {# sample_entry 1 100, sample_entry 2 50 #}"
    using leaderboard_replace_only_if_greater
      [where stored = "Some [sample_entry 1 100]" and e = "sample_new_entry 50"
        and toNumber = decimal_toNumber and lb' = "[sample_entry 1 100, sample_entry 2 50]"
        and pos = 2] small stored
    by (simp add: lastEntryId_def sample_entry_def sample_new_entry_def entry_document_def
        castNumber_def)
  ultimately show ?thesis
    using first idx stored by (simp add: sortByScore_def keepTop100_def)
qed


subsection \<open>Question batches\<close>

text \<open>
  On the primary path alone the handler does what its comment says: the questions it
  returns are not among the ids in the user document, and the document's list is
  extended by them.
\<close>

lemma set_limit: "set (limit n xs) \<subseteq> set xs"
  by (auto simp: limit_def dest: in_set_takeD)

lemma post_questions_primary_path:
  assumes "level \<in> set LEVELS"
    and "qs_users st username = Some answered"
    and "filter (\<lambda>x. fst x = level \<and> q_id (snd x) \<notin> set answered) (qs_questions st) \<noteq> []"
    and "post_questions st username level n = (st', Inr qs)"
  shows "set (map q_id qs) \<inter> set answered = {}"
    and "qs_users st' username = Some (answered @ map q_id qs)"
proof -
  define found where "found =
    limit n (filter (\<lambda>x. fst x = level \<and> q_id (snd x) \<notin> set answered) (qs_questions st))"
  have nonempty: "found \<noteq> []"
    using assms(3) unfolding found_def limit_def by (cases n) auto
  with assms(1,2,4) have qs: "qs = map snd found"
    and st': "st' = st\<lparr> qs_users := (qs_users st)(username \<mapsto> answered @ map (\<lambda>x. q_id (snd x)) found) \<rparr>"
    by (auto simp: post_questions_def Let_def found_def [symmetric])
  have "set found \<subseteq> {x. q_id (snd x) \<notin> set answered}"
    using set_limit [of n] unfolding found_def by fastforce
  then show "set (map q_id qs) \<inter> set answered = {}"
    unfolding qs by auto
  show "qs_users st' username = Some (answered @ map q_id qs)"
    unfolding qs st' by (simp add: comp_def)
qed

text \<open>
  Claim C3, evaluated where it fails. The Question collection is empty, the level file
  holds \<open>e1\<close>, \<open>e2\<close>, \<open>e3\<close>, and user alice has answered nothing. Her first request
  for two easy questions goes through the file fallback: it returns \<open>e1\<close> and \<open>e2\<close>,
  records them in \<^verbatim>\<open>user_questions.json\<close> only, and copies them into the Question
  collection. Her second request finds them there, unanswered according to her user
  document, and returns \<open>e1\<close> and \<open>e2\<close> again, although \<open>e3\<close> has never been served.
\<close>

theorem post_questions_repeats_after_fallback:
  "snd (post_questions fresh_store ''alice'' ''easy'' 2)
     = Inr [sample_question ''e1'', sample_question ''e2''] \<and>
   qs_users (fst (post_questions fresh_store ''alice'' ''easy'' 2)) ''alice'' = Some [] \<and>
   snd (post_questions (fst (post_questions fresh_store ''alice'' ''easy'' 2)) ''alice'' ''easy'' 2)
     = Inr [sample_question ''e1'', sample_question ''e2''] \<and>
   sample_question ''e3'' \<in> set (getQuestions (qs_files fresh_store) ''easy'')"
proof -
  have first: "post_questions fresh_store ''alice'' ''easy'' 2 =
      (\<lparr> qs_users = Map.empty(''alice'' \<mapsto> []),
         qs_questions = [(''easy'', sample_question ''e1''), (''easy'', sample_question ''e2'')],
         qs_files = sample_files,
         qs_user_questions = Some (Map.empty(''alice'' \<mapsto> [''e1'', ''e2''])) \<rparr>,
       Inr [sample_question ''e1'', sample_question ''e2''])"
    by (simp add: post_questions_def fresh_store_def LEVELS_def limit_def getUserQuestions_def
        setUserQuestions_def getQuestions_def sample_files_def sample_question_def Let_def)
  have second: "snd (post_questions
      \<lparr> qs_users = Map.empty(''alice'' \<mapsto> []),
        qs_questions = [(''easy'', sample_question ''e1''), (''easy'', sample_question ''e2'')],
        qs_files = sample_files,
        qs_user_questions = Some (Map.empty(''alice'' \<mapsto> [''e1'', ''e2''])) \<rparr>
      ''alice'' ''easy'' 2) = Inr [sample_question ''e1'', sample_question ''e2'']"
    by (simp add: post_questions_def LEVELS_def limit_def Let_def)
  have third: "sample_question ''e3'' \<in> set (getQuestions (qs_files fresh_store) ''easy'')"
    by (simp add: fresh_store_def getQuestions_def sample_files_def)
  show ?thesis
    using second third by (simp add: first)
qed



subsection \<open>Building a game\<close>

lemma pad_never_ends:
  assumes "length items < 16" and "avail \<noteq> []" and "q_id ` set avail \<subseteq> gi_id ` set items"
  shows "pad avail draws items = None"
proof (induction draws)
  case Nil
  from assms show ?case by simp
next
  case (Cons r draws)
  have "r mod length avail < length avail"
    using assms(2) by simp
  then have "avail ! (r mod length avail) \<in> set avail"
    by (rule nth_mem)
  then have "q_id (avail ! (r mod length avail)) \<in> gi_id ` set items"
    using assms(3) by blast
  then have "list_ex (\<lambda>q. gi_id q = q_id (avail ! (r mod length avail))) items"
    by (auto simp: list_ex_iff)
  with assms Cons show ?case
    by (simp add: Let_def)
qed

lemma built_ids:
  "map gi_id (map (\<lambda>(i, q). buildItem i q (prizeAt i)) (enumerate n qs)) = map q_id qs"
  by (induction qs arbitrary: n) (simp_all add: buildItem_def)

lemma game_questions_short_catalog:
  assumes "cat \<noteq> []" and "length cat < 16"
  shows "game_questions (Some cat) shuffled draws = None"
proof -
  let ?items = "map (\<lambda>(i, q). buildItem i q (prizeAt i)) (enumerate 0 cat)"
  have sel: "getRandomQuestions shuffled cat 16 = cat"
    using assms(2) by (simp add: getRandomQuestions_def)
  have "gi_id ` set ?items = set (map gi_id ?items)"
    by (simp only: set_map)
  also have "\<dots> = q_id ` set cat"
    by (simp only: built_ids set_map)
  finally have ids: "q_id ` set cat \<subseteq> gi_id ` set ?items"
    by simp
  have len: "length ?items < 16"
    using assms(2) by simp
  from pad_never_ends [OF len assms(1) ids] len show ?thesis
    by (simp add: game_questions_def getAllQuestions_def sel Let_def)
qed








text \<open>
  Claim C7, evaluated where it fails. With a catalog of one question the handler never
  answers: the selection already holds every catalog question, so each resampled
  question is a duplicate and the padding loop, whose condition only asks for a
  non-empty catalog, runs on for every sequence of random draws. Only the empty catalog
  (or a missing file) gives the empty list.
\<close>

theorem game_questions_small_catalog_never_returns:
  "(\<forall>shuffled draws. game_questions (Some [sample_question ''e1'']) shuffled draws = None) \<and>
   (\<forall>shuffled draws. game_questions (Some []) shuffled draws
      = Some \<lparr> gr_questions = [], gr_totalQuestions = 16 \<rparr>) \<and>
   (\<forall>shuffled draws. game_questions None shuffled draws
      = Some \<lparr> gr_questions = [], gr_totalQuestions = 16 \<rparr>)"
proof (intro conjI allI)
  fix shuffled :: "question list" and draws :: "nat list"
  show "game_questions (Some [sample_question ''e1'']) shuffled draws = None"
    by (rule game_questions_short_catalog) simp_all
  show "game_questions (Some []) shuffled draws = Some \<lparr> gr_questions = [], gr_totalQuestions = 16 \<rparr>"
    by (cases draws) (simp_all add: game_questions_def getAllQuestions_def getRandomQuestions_def)
  show "game_questions None shuffled draws = Some \<lparr> gr_questions = [], gr_totalQuestions = 16 \<rparr>"
    by (cases draws) (simp_all add: game_questions_def getAllQuestions_def getRandomQuestions_def)
qed


end
